theory Spec2Isabelle
  imports Complex_Main
begin

section \<open>Decision pipeline of the trading agent (package decision)\<close>

text \<open>
  Conventions of the embedding.
  \<^item> Go \<open>string\<close> is a byte sequence: \<open>string\<close> (a \<open>char list\<close>), indices are byte offsets.
  \<^item> Go \<open>float64\<close> is modelled by \<open>real\<close>: arithmetic is exact, rounding, infinities and NaN
    are not represented. JSON decoding never produces an infinity or a NaN.
  \<^item> Go \<open>int\<close> is modelled by \<open>int\<close>; the functions below only compare such values.
  \<^item> An \<open>error\<close> result is a value of a datatype; \<open>nil\<close> is \<open>None\<close> (or the \<open>Inr\<close> side).
    The wording of the Go error messages is not modelled, their arguments are.
\<close>

subsection \<open>Data\<close>

text \<open>\<open>type Decision struct\<close>.\<close>

record decision =
  Symbol :: string
  Action :: string
  Leverage :: int
  PositionSizeUSD :: real
  StopLoss :: real
  TakeProfit :: real
  Confidence :: int
  RiskUSD :: real
  Reasoning :: string

text \<open>The zero value of the struct (\<open>Decision{}\<close>).\<close>

definition zeroDecision :: decision where
  "zeroDecision = \<lparr>Symbol = [], Action = [], Leverage = 0, PositionSizeUSD = 0, StopLoss = 0,
     TakeProfit = 0, Confidence = 0, RiskUSD = 0, Reasoning = []\<rparr>"

subsection \<open>Functions of the Go library (package strings)\<close>

text \<open>
  \<open>strings.HasPrefix\<close>, \<open>Index\<close>, \<open>LastIndex\<close> (\<open>None\<close> for \<open>-1\<close>), \<open>Contains\<close>, \<open>ContainsAny\<close>,
  \<open>ReplaceAll\<close> (for a non-empty \<open>old\<close>, the only use here), the slice expression \<open>s[i:j]\<close>,
  and \<open>TrimSpace\<close>, which removes the leading and trailing white space of Unicode:
  \<open>spaceRunes\<close> are the UTF-8 encodings of the code points with \<open>unicode.IsSpace\<close>.
\<close>

fun HasPrefix :: "string \<Rightarrow> string \<Rightarrow> bool" where
  "HasPrefix s [] = True"
| "HasPrefix [] (p # ps) = False"
| "HasPrefix (c # cs) (p # ps) = (c = p \<and> HasPrefix cs ps)"

fun Index :: "string \<Rightarrow> string \<Rightarrow> nat option" where
  "Index [] substr = (if substr = [] then Some 0 else None)"
| "Index (c # cs) substr =
     (if HasPrefix (c # cs) substr then Some 0 else map_option Suc (Index cs substr))"

fun LastIndex :: "string \<Rightarrow> string \<Rightarrow> nat option" where
  "LastIndex [] substr = (if substr = [] then Some 0 else None)"
| "LastIndex (c # cs) substr =
     (case LastIndex cs substr of
        Some i \<Rightarrow> Some (Suc i)
      | None \<Rightarrow> if HasPrefix (c # cs) substr then Some 0 else None)"

definition Contains :: "string \<Rightarrow> string \<Rightarrow> bool" where
  "Contains s substr \<longleftrightarrow> Index s substr \<noteq> None"

definition ContainsAny :: "string \<Rightarrow> string \<Rightarrow> bool" where
  "ContainsAny s chars \<longleftrightarrow> (\<exists>c \<in> set s. c \<in> set chars)"

fun ReplaceAll :: "string \<Rightarrow> string \<Rightarrow> string \<Rightarrow> string" where
  "ReplaceAll [] (p # ps) new = []"
| "ReplaceAll (c # cs) (p # ps) new =
     (if HasPrefix (c # cs) (p # ps)
      then new @ ReplaceAll (drop (length ps) cs) (p # ps) new
      else c # ReplaceAll cs (p # ps) new)"

definition slice :: "string \<Rightarrow> nat \<Rightarrow> nat \<Rightarrow> string" where
  "slice s i j = take (j - i) (drop i s)"

definition spaceRunes :: "string list" where
  "spaceRunes =
     [[CHR 0x09], [CHR 0x0A], [CHR 0x0B], [CHR 0x0C], [CHR 0x0D], [CHR 0x20],
      [CHR 0xC2, CHR 0x85], [CHR 0xC2, CHR 0xA0], [CHR 0xE1, CHR 0x9A, CHR 0x80],
      [CHR 0xE2, CHR 0x80, CHR 0x80], [CHR 0xE2, CHR 0x80, CHR 0x81],
      [CHR 0xE2, CHR 0x80, CHR 0x82], [CHR 0xE2, CHR 0x80, CHR 0x83],
      [CHR 0xE2, CHR 0x80, CHR 0x84], [CHR 0xE2, CHR 0x80, CHR 0x85],
      [CHR 0xE2, CHR 0x80, CHR 0x86], [CHR 0xE2, CHR 0x80, CHR 0x87],
      [CHR 0xE2, CHR 0x80, CHR 0x88], [CHR 0xE2, CHR 0x80, CHR 0x89],
      [CHR 0xE2, CHR 0x80, CHR 0x8A], [CHR 0xE2, CHR 0x80, CHR 0xA8],
      [CHR 0xE2, CHR 0x80, CHR 0xA9], [CHR 0xE2, CHR 0x80, CHR 0xAF],
      [CHR 0xE2, CHR 0x81, CHR 0x9F], [CHR 0xE3, CHR 0x80, CHR 0x80]]"

definition spaceLen :: "string list \<Rightarrow> string \<Rightarrow> nat" where
  "spaceLen runes s = (case find (HasPrefix s) runes of None \<Rightarrow> 0 | Some r \<Rightarrow> length r)"

fun trimLeft :: "string list \<Rightarrow> string \<Rightarrow> string" where
  "trimLeft runes [] = []"
| "trimLeft runes (c # cs) =
     (let n = spaceLen runes (c # cs)
      in if n = 0 then c # cs else trimLeft runes (drop (n - 1) cs))"

definition TrimSpace :: "string \<Rightarrow> string" where
  "TrimSpace s = rev (trimLeft (map rev spaceRunes) (rev (trimLeft spaceRunes s)))"

subsection \<open>Decoding of the decisions (package encoding/json)\<close>

text \<open>
  A model of \<open>json.Unmarshal\<close> into a \<open>[]Decision\<close>, from the documentation of the library:
  the whole text must be one JSON value; then \<open>null\<close> gives the empty slice, an array
  gives one \<open>Decision\<close> for each element and anything else is an error. The functions of
  the pipeline take the decoder as an argument: what is proved for every decoder holds
  for the library's, and this model serves where a concrete text is decoded.
\<close>

datatype json =
    JNull
  | JBool bool
  | JNumber string
  | JString string
  | JArray "json list"
  | JObject "(string \<times> json) list"

definition isJsonSpace :: "char \<Rightarrow> bool" where
  "isJsonSpace c \<longleftrightarrow> c \<in> set [CHR 0x20, CHR 0x09, CHR 0x0D, CHR 0x0A]"

definition skipSpace :: "string \<Rightarrow> string" where
  "skipSpace s = dropWhile isJsonSpace s"

definition isDigit :: "char \<Rightarrow> bool" where
  "isDigit c \<longleftrightarrow> c \<in> set ''0123456789''"

definition digitVal :: "char \<Rightarrow> nat" where
  "digitVal c = length (takeWhile (\<lambda>x. x \<noteq> c) ''0123456789'')"

definition hexVal :: "char \<Rightarrow> nat option" where
  "hexVal c =
     (if c \<in> set ''0123456789abcdef'' then Some (length (takeWhile (\<lambda>x. x \<noteq> c) ''0123456789abcdef''))
      else if c \<in> set ''ABCDEF'' then Some (10 + length (takeWhile (\<lambda>x. x \<noteq> c) ''ABCDEF''))
      else None)"

text \<open>\<open>getu4\<close>: the code unit of a leading \<open>\uXXXX\<close>.\<close>

definition getu4 :: "string \<Rightarrow> nat option" where
  "getu4 s =
     (case s of
        b # u # h1 # h2 # h3 # h4 # _ \<Rightarrow>
          if b = CHR 0x5C \<and> u = CHR ''u'' then
            (case (hexVal h1, hexVal h2, hexVal h3, hexVal h4) of
               (Some a, Some b, Some c, Some d) \<Rightarrow> Some (((a * 16 + b) * 16 + c) * 16 + d)
             | _ \<Rightarrow> None)
          else None
      | _ \<Rightarrow> None)"

text \<open>\<open>utf8.EncodeRune\<close> for a code point that is not a surrogate.\<close>

definition encodeRune :: "nat \<Rightarrow> string" where
  "encodeRune r =
     (if r < 0x80 then [char_of r]
      else if r < 0x800 then [char_of (0xC0 + r div 64), char_of (0x80 + r mod 64)]
      else if r < 0x10000 then
        [char_of (0xE0 + r div 4096), char_of (0x80 + r div 64 mod 64), char_of (0x80 + r mod 64)]
      else
        [char_of (0xF0 + r div 262144), char_of (0x80 + r div 4096 mod 64),
         char_of (0x80 + r div 64 mod 64), char_of (0x80 + r mod 64)])"

definition isSurrogate :: "nat \<Rightarrow> bool" where
  "isSurrogate r \<longleftrightarrow> 0xD800 \<le> r \<and> r < 0xE000"

definition byteIn :: "char \<Rightarrow> nat \<Rightarrow> nat \<Rightarrow> bool" where
  "byteIn c lo hi \<longleftrightarrow> lo \<le> (of_char c :: nat) \<and> (of_char c :: nat) \<le> hi"

text \<open>Length of the well-formed UTF-8 sequence at the head of the bytes, \<open>0\<close> if there is none.\<close>

definition utf8SeqLen :: "string \<Rightarrow> nat" where
  "utf8SeqLen s =
     (case s of
        [] \<Rightarrow> 0
      | c # cs \<Rightarrow>
          if byteIn c 0x00 0x7F then 1
          else if byteIn c 0xC2 0xDF then
            (case cs of x # _ \<Rightarrow> if byteIn x 0x80 0xBF then 2 else 0 | _ \<Rightarrow> 0)
          else if byteIn c 0xE0 0xEF then
            (case cs of
               x # y # _ \<Rightarrow>
                 if byteIn x (if c = CHR 0xE0 then 0xA0 else 0x80) (if c = CHR 0xED then 0x9F else 0xBF)
                    \<and> byteIn y 0x80 0xBF
                 then 3 else 0
             | _ \<Rightarrow> 0)
          else if byteIn c 0xF0 0xF4 then
            (case cs of
               x # y # z # _ \<Rightarrow>
                 if byteIn x (if c = CHR 0xF0 then 0x90 else 0x80) (if c = CHR 0xF4 then 0x8F else 0xBF)
                    \<and> byteIn y 0x80 0xBF \<and> byteIn z 0x80 0xBF
                 then 4 else 0
             | _ \<Rightarrow> 0)
          else 0)"

definition simpleEscape :: "char \<Rightarrow> char option" where
  "simpleEscape c =
     (if c = CHR 0x22 then Some (CHR 0x22)
      else if c = CHR 0x5C then Some (CHR 0x5C)
      else if c = CHR ''/'' then Some (CHR ''/'')
      else if c = CHR ''b'' then Some (CHR 0x08)
      else if c = CHR ''f'' then Some (CHR 0x0C)
      else if c = CHR ''n'' then Some (CHR 0x0A)
      else if c = CHR ''r'' then Some (CHR 0x0D)
      else if c = CHR ''t'' then Some (CHR 0x09)
      else None)"

text \<open>
  The body of a string literal, after the opening quote: the decoded bytes and the input
  after the closing quote.
\<close>

fun parseStringBody :: "string \<Rightarrow> (string \<times> string) option" where
  "parseStringBody [] = None"
| "parseStringBody (c # cs) =
     (if c = CHR 0x22 then Some ([], cs)
      else if c = CHR 0x5C then
        (case cs of
           [] \<Rightarrow> None
         | e # es \<Rightarrow>
             if e = CHR ''u'' then
               (case getu4 (c # cs) of
                  None \<Rightarrow> None
                | Some rr \<Rightarrow>
                    if isSurrogate rr then
                      (case getu4 (drop 5 cs) of
                         Some rr1 \<Rightarrow>
                           if rr < 0xDC00 \<and> 0xDC00 \<le> rr1 \<and> rr1 < 0xE000 then
                             map_option (\<lambda>(t, r). (encodeRune ((rr - 0xD800) * 1024 + (rr1 - 0xDC00) + 0x10000) @ t, r))
                               (parseStringBody (drop 11 cs))
                           else map_option (\<lambda>(t, r). (encodeRune 0xFFFD @ t, r)) (parseStringBody (drop 5 cs))
                       | None \<Rightarrow> map_option (\<lambda>(t, r). (encodeRune 0xFFFD @ t, r)) (parseStringBody (drop 5 cs)))
                    else map_option (\<lambda>(t, r). (encodeRune rr @ t, r)) (parseStringBody (drop 5 cs)))
             else
               (case simpleEscape e of
                  None \<Rightarrow> None
                | Some x \<Rightarrow> map_option (\<lambda>(t, r). (x # t, r)) (parseStringBody es)))
      else if byteIn c 0x00 0x1F then None
      else
        (let n = utf8SeqLen (c # cs)
         in if n = 0 then map_option (\<lambda>(t, r). (encodeRune 0xFFFD @ t, r)) (parseStringBody cs)
            else map_option (\<lambda>(t, r). (take n (c # cs) @ t, r)) (parseStringBody (drop (n - 1) cs))))"

text \<open>The pieces of a number literal: sign, digits, fraction, exponent.\<close>

definition splitSign :: "string \<Rightarrow> bool \<times> string" where
  "splitSign s = (if HasPrefix s ''-'' then (True, drop 1 s) else (False, s))"

definition splitDigits :: "string \<Rightarrow> string \<times> string" where
  "splitDigits s = (takeWhile isDigit s, dropWhile isDigit s)"

definition intPart :: "string \<Rightarrow> string \<times> string" where
  "intPart s = (if HasPrefix s ''0'' then (''0'', drop 1 s) else splitDigits s)"

definition fracPart :: "string \<Rightarrow> (string \<times> string) option" where
  "fracPart s =
     (if HasPrefix s ''.'' then
        (case splitDigits (drop 1 s) of
           (fd, r) \<Rightarrow> if fd = [] then None else Some (CHR ''.'' # fd, r))
      else Some ([], s))"

definition expSign :: "string \<Rightarrow> string \<times> string" where
  "expSign s = (if HasPrefix s ''+'' \<or> HasPrefix s ''-'' then (take 1 s, drop 1 s) else ([], s))"

definition expPart :: "string \<Rightarrow> (string \<times> string) option" where
  "expPart s =
     (if HasPrefix s ''e'' \<or> HasPrefix s ''E'' then
        (case expSign (drop 1 s) of
           (sg, t) \<Rightarrow>
             (case splitDigits t of
                (ed, r) \<Rightarrow> if ed = [] then None else Some (take 1 s @ sg @ ed, r)))
      else Some ([], s))"

text \<open>A number literal at the head of the input: its text and the input after it.\<close>

definition parseNumber :: "string \<Rightarrow> (string \<times> string) option" where
  "parseNumber s =
     (case splitSign s of
        (neg, s1) \<Rightarrow>
          (case intPart s1 of
             (ip, s2) \<Rightarrow>
               if ip = [] then None
               else
                 (case fracPart s2 of
                    None \<Rightarrow> None
                  | Some (fp, s3) \<Rightarrow>
                      (case expPart s3 of
                         None \<Rightarrow> None
                       | Some (ep, s4) \<Rightarrow>
                           Some ((if neg then ''-'' else []) @ ip @ fp @ ep, s4)))))"

text \<open>\<open>strconv.ParseInt(s, 10, 64)\<close> on a JSON number literal; the bound is \<open>2 ^ 63\<close>.\<close>

definition natOfDigits :: "string \<Rightarrow> nat" where
  "natOfDigits ds = foldl (\<lambda>n c. 10 * n + digitVal c) 0 ds"

definition inInt64 :: "int \<Rightarrow> int option" where
  "inInt64 v = (if v < - 9223372036854775808 \<or> v \<ge> 9223372036854775808 then None else Some v)"

definition parseInt64 :: "string \<Rightarrow> int option" where
  "parseInt64 lit =
     (case splitSign lit of
        (neg, ds) \<Rightarrow>
          if ds = [] \<or> \<not> list_all isDigit ds then None
          else inInt64 (if neg then - int (natOfDigits ds) else int (natOfDigits ds)))"

text \<open>
  \<open>strconv.ParseFloat(s, 64)\<close> on a JSON number literal: here the exact decimal value (the
  library rounds it to the nearest \<open>float64\<close>), and an error where the library reports a
  value out of range, which is from \<open>float64Limit\<close> (that is \<open>2 ^ 1024 - 2 ^ 970\<close>) on.
\<close>

definition exponentOf :: "string \<Rightarrow> int" where
  "exponentOf s =
     (case expSign (drop 1 s) of
        (sg, ed) \<Rightarrow> if sg = ''-'' then - int (natOfDigits ed) else int (natOfDigits ed))"

definition scaleDecimal :: "nat \<Rightarrow> int \<Rightarrow> real" where
  "scaleDecimal m ex = (if ex \<ge> 0 then real m * 10 ^ nat ex else real m / 10 ^ nat (- ex))"

definition float64Limit :: real where
  "float64Limit = 179769313486231580793728971405303415079934132710037826936173778980444968292764750946649017977587207096330286416692887910946555547851940402630657488671505820681908902000708383676273854845817711531764475730270069855571366959622842914819860834936475292719074168444365510704342711559699508093042880177904174497792"

definition inFloat64 :: "bool \<Rightarrow> real \<Rightarrow> real option" where
  "inFloat64 neg a = (if a \<ge> float64Limit then None else Some (if neg then - a else a))"

definition parseFloat64 :: "string \<Rightarrow> real option" where
  "parseFloat64 lit =
     (case splitSign lit of
        (neg, s1) \<Rightarrow>
          (case splitDigits s1 of
             (ip, s2) \<Rightarrow>
               (case fracPart s2 of
                  None \<Rightarrow> None
                | Some (fp, s3) \<Rightarrow>
                    inFloat64 neg
                      (scaleDecimal (natOfDigits (ip @ drop 1 fp))
                         (exponentOf s3 - int (length (drop 1 fp)))))))"

text \<open>
  A JSON value at the head of the input (after optional white space), with the input
  that follows it. \<open>fuel\<close> bounds the number of nested calls; every call consumes a byte
  before it recurses, so the length of the input is enough.
\<close>

fun parseValue :: "nat \<Rightarrow> string \<Rightarrow> (json \<times> string) option"
  and parseElements :: "nat \<Rightarrow> string \<Rightarrow> (json list \<times> string) option"
  and parseMembers :: "nat \<Rightarrow> string \<Rightarrow> ((string \<times> json) list \<times> string) option" where
  "parseValue 0 s = None"
| "parseValue (Suc fuel) s =
     (case skipSpace s of
        [] \<Rightarrow> None
      | c # cs \<Rightarrow>
          if c = CHR ''['' then
            (case skipSpace cs of
               [] \<Rightarrow> None
             | x # xs \<Rightarrow>
                 if x = CHR '']'' then Some (JArray [], xs)
                 else map_option (\<lambda>(vs, r). (JArray vs, r)) (parseElements fuel cs))
          else if c = CHR ''{'' then
            (case skipSpace cs of
               [] \<Rightarrow> None
             | x # xs \<Rightarrow>
                 if x = CHR ''}'' then Some (JObject [], xs)
                 else map_option (\<lambda>(ms, r). (JObject ms, r)) (parseMembers fuel cs))
          else if c = CHR 0x22 then map_option (\<lambda>(t, r). (JString t, r)) (parseStringBody cs)
          else if HasPrefix (c # cs) ''true'' then Some (JBool True, drop 3 cs)
          else if HasPrefix (c # cs) ''false'' then Some (JBool False, drop 4 cs)
          else if HasPrefix (c # cs) ''null'' then Some (JNull, drop 3 cs)
          else map_option (\<lambda>(t, r). (JNumber t, r)) (parseNumber (c # cs)))"
| "parseElements 0 s = None"
| "parseElements (Suc fuel) s =
     (case parseValue fuel s of
        None \<Rightarrow> None
      | Some (v, r) \<Rightarrow>
          (case skipSpace r of
             [] \<Rightarrow> None
           | c # cs \<Rightarrow>
               if c = CHR '']'' then Some ([v], cs)
               else if c = CHR '','' then map_option (\<lambda>(vs, r'). (v # vs, r')) (parseElements fuel cs)
               else None))"
| "parseMembers 0 s = None"
| "parseMembers (Suc fuel) s =
     (case skipSpace s of
        [] \<Rightarrow> None
      | q # qs \<Rightarrow>
          if q \<noteq> CHR 0x22 then None
          else
            (case parseStringBody qs of
               None \<Rightarrow> None
             | Some (k, r) \<Rightarrow>
                 (case skipSpace r of
                    [] \<Rightarrow> None
                  | c # cs \<Rightarrow>
                      if c \<noteq> CHR '':'' then None
                      else
                        (case parseValue fuel cs of
                           None \<Rightarrow> None
                         | Some (v, r') \<Rightarrow>
                             (case skipSpace r' of
                                [] \<Rightarrow> None
                              | e # es \<Rightarrow>
                                  if e = CHR ''}'' then Some ([(k, v)], es)
                                  else if e = CHR '','' then
                                    map_option (\<lambda>(ms, r''). ((k, v) # ms, r'')) (parseMembers fuel es)
                                  else None)))))"

definition parseJson :: "string \<Rightarrow> json option" where
  "parseJson s =
     (case parseValue (Suc (length s)) s of
        None \<Rightarrow> None
      | Some (v, r) \<Rightarrow> if skipSpace r = [] then Some v else None)"

definition asciiLower :: "char \<Rightarrow> char" where
  "asciiLower c =
     (case map_of (zip ''ABCDEFGHIJKLMNOPQRSTUVWXYZ'' ''abcdefghijklmnopqrstuvwxyz'') c of
        None \<Rightarrow> c
      | Some l \<Rightarrow> l)"

text \<open>
  One member of a JSON object stored into a \<open>Decision\<close>, by the \<open>json\<close> tags of the struct.
  A key matches a tag up to the case of ASCII letters; a key that matches no tag is
  skipped; \<open>null\<close> leaves the field as it is; a value of another kind than the field's is
  an error.
\<close>

definition setString :: "json \<Rightarrow> (string \<Rightarrow> decision) \<Rightarrow> decision \<Rightarrow> decision option" where
  "setString v upd d = (case v of JString s \<Rightarrow> Some (upd s) | JNull \<Rightarrow> Some d | _ \<Rightarrow> None)"

definition setInt :: "json \<Rightarrow> (int \<Rightarrow> decision) \<Rightarrow> decision \<Rightarrow> decision option" where
  "setInt v upd d =
     (case v of JNumber n \<Rightarrow> map_option upd (parseInt64 n) | JNull \<Rightarrow> Some d | _ \<Rightarrow> None)"

definition setFloat :: "json \<Rightarrow> (real \<Rightarrow> decision) \<Rightarrow> decision \<Rightarrow> decision option" where
  "setFloat v upd d =
     (case v of JNumber n \<Rightarrow> map_option upd (parseFloat64 n) | JNull \<Rightarrow> Some d | _ \<Rightarrow> None)"

definition setField :: "string \<Rightarrow> json \<Rightarrow> decision \<Rightarrow> decision option" where
  "setField key v d =
     (let k = map asciiLower key
      in if k = ''symbol'' then setString v (\<lambda>x. d\<lparr>Symbol := x\<rparr>) d
         else if k = ''action'' then setString v (\<lambda>x. d\<lparr>Action := x\<rparr>) d
         else if k = ''leverage'' then setInt v (\<lambda>x. d\<lparr>Leverage := x\<rparr>) d
         else if k = ''position_size_usd'' then setFloat v (\<lambda>x. d\<lparr>PositionSizeUSD := x\<rparr>) d
         else if k = ''stop_loss'' then setFloat v (\<lambda>x. d\<lparr>StopLoss := x\<rparr>) d
         else if k = ''take_profit'' then setFloat v (\<lambda>x. d\<lparr>TakeProfit := x\<rparr>) d
         else if k = ''confidence'' then setInt v (\<lambda>x. d\<lparr>Confidence := x\<rparr>) d
         else if k = ''risk_usd'' then setFloat v (\<lambda>x. d\<lparr>RiskUSD := x\<rparr>) d
         else if k = ''reasoning'' then setString v (\<lambda>x. d\<lparr>Reasoning := x\<rparr>) d
         else Some d)"

fun setFields :: "(string \<times> json) list \<Rightarrow> decision \<Rightarrow> decision option" where
  "setFields [] d = Some d"
| "setFields ((k, v) # ms) d =
     (case setField k v d of None \<Rightarrow> None | Some d' \<Rightarrow> setFields ms d')"

definition decodeDecision :: "json \<Rightarrow> decision option" where
  "decodeDecision v =
     (case v of
        JObject ms \<Rightarrow> setFields ms zeroDecision
      | JNull \<Rightarrow> Some zeroDecision
      | _ \<Rightarrow> None)"

text \<open>
  \<open>json.Unmarshal([]byte(s), &decisions)\<close> with \<open>var decisions []Decision\<close>: the decoded
  slice, or the error. The text of the library's error is not reproduced.
\<close>

definition jsonUnmarshal :: "string \<Rightarrow> string + decision list" where
  "jsonUnmarshal s =
     (case parseJson s of
        None \<Rightarrow> Inl ''invalid JSON''
      | Some JNull \<Rightarrow> Inr []
      | Some (JArray vs) \<Rightarrow>
          (case those (map decodeDecision vs) of
             None \<Rightarrow> Inl ''cannot unmarshal into Go value of type decision.Decision''
           | Some ds \<Rightarrow> Inr ds)
      | Some _ \<Rightarrow> Inl ''cannot unmarshal into Go value of type []decision.Decision'')"

subsection \<open>fixMissingQuotes and fixArithmeticExpressions\<close>

text \<open>
  \<open>fixMissingQuotes\<close>: the four typographic quotes U+201C, U+201D, U+2018, U+2019 (three
  bytes each in UTF-8) become ASCII quotes.
\<close>

definition fixMissingQuotes :: "string \<Rightarrow> string" where
  "fixMissingQuotes jsonStr =
     (let s1 = ReplaceAll jsonStr [CHR 0xE2, CHR 0x80, CHR 0x9C] [CHR 0x22];
          s2 = ReplaceAll s1 [CHR 0xE2, CHR 0x80, CHR 0x9D] [CHR 0x22];
          s3 = ReplaceAll s2 [CHR 0xE2, CHR 0x80, CHR 0x98] [CHR 0x27];
          s4 = ReplaceAll s3 [CHR 0xE2, CHR 0x80, CHR 0x99] [CHR 0x27]
      in s4)"

text \<open>
  The regular expression of \<open>fixArithmeticExpressions\<close>,
  \<^verbatim>\<open>("(?:risk_usd|position_size_usd|stop_loss|take_profit|leverage|confidence)"\s*:\s*)([\d.]+)\s*([*+\-/\s()\d.]+?)(\s*[,}\]\n])\<close>,
  under the leftmost-first matching of Go's \<open>regexp\<close>: a matcher maps the input to the list of
  its ways to match a prefix, each with the rest of the input, in the order in which a
  backtracking search tries them (a greedy repetition from the longest, a lazy one from
  the shortest, an alternation from the left). The first element of the list is the match.
\<close>

type_synonym matcher = "string \<Rightarrow> (string \<times> string) list"

definition reLit :: "string \<Rightarrow> matcher" where
  "reLit p s = (if HasPrefix s p then [(p, drop (length p) s)] else [])"

definition reClass :: "(char \<Rightarrow> bool) \<Rightarrow> matcher" where
  "reClass cls s = (case s of [] \<Rightarrow> [] | c # cs \<Rightarrow> if cls c then [([c], cs)] else [])"

definition reGreedy :: "(char \<Rightarrow> bool) \<Rightarrow> nat \<Rightarrow> matcher" where
  "reGreedy cls m s =
     map (\<lambda>k. (take k s, drop k s)) (rev [m ..< Suc (length (takeWhile cls s))])"

definition reLazy :: "(char \<Rightarrow> bool) \<Rightarrow> nat \<Rightarrow> matcher" where
  "reLazy cls m s =
     map (\<lambda>k. (take k s, drop k s)) [m ..< Suc (length (takeWhile cls s))]"

definition reSeq :: "matcher \<Rightarrow> matcher \<Rightarrow> matcher" where
  "reSeq a b s = concat (map (\<lambda>(x, r). map (\<lambda>(y, r'). (x @ y, r')) (b r)) (a s))"

definition reAlt :: "matcher list \<Rightarrow> matcher" where
  "reAlt ms s = concat (map (\<lambda>m. m s) ms)"

text \<open>The classes \<open>\s\<close>, \<open>[\d.]\<close>, \<open>[*+\-/\s()\d.]\<close> and \<open>[,}\]\n]\<close>.\<close>

definition isReSpace :: "char \<Rightarrow> bool" where
  "isReSpace c \<longleftrightarrow> c \<in> set [CHR 0x09, CHR 0x0A, CHR 0x0C, CHR 0x0D, CHR 0x20]"

definition isNumChar :: "char \<Rightarrow> bool" where
  "isNumChar c \<longleftrightarrow> isDigit c \<or> c = CHR ''.''"

definition isExprChar :: "char \<Rightarrow> bool" where
  "isExprChar c \<longleftrightarrow> c \<in> set ''*+-/()'' \<or> isReSpace c \<or> isDigit c \<or> c = CHR ''.''"

definition isEndChar :: "char \<Rightarrow> bool" where
  "isEndChar c \<longleftrightarrow> c \<in> set [CHR '','', CHR ''}'', CHR '']'', CHR 0x0A]"

definition fieldPartRe :: matcher where
  "fieldPartRe =
     reSeq (reLit [CHR 0x22])
       (reSeq (reAlt [reLit ''risk_usd'', reLit ''position_size_usd'', reLit ''stop_loss'',
                      reLit ''take_profit'', reLit ''leverage'', reLit ''confidence''])
          (reSeq (reLit [CHR 0x22])
             (reSeq (reGreedy isReSpace 0) (reSeq (reLit '':'') (reGreedy isReSpace 0)))))"

definition endingRe :: matcher where
  "endingRe = reSeq (reGreedy isReSpace 0) (reClass isEndChar)"

text \<open>
  The matches of the whole expression at the head of the input, in priority order, as
  the submatches 1 to 4 with the white space between the second and the third.
\<close>

definition arithmeticMatches :: "string \<Rightarrow> (string \<times> string \<times> string \<times> string \<times> string) list" where
  "arithmeticMatches s =
     concat (map (\<lambda>(g1, r1).
       concat (map (\<lambda>(g2, r2).
         concat (map (\<lambda>(w, r3).
           concat (map (\<lambda>(g3, r4).
             map (\<lambda>(g4, r5). (g1, g2, w, g3, g4)) (endingRe r4))
           (reLazy isExprChar 1 r3)))
         (reGreedy isReSpace 0 r2)))
       (reGreedy isNumChar 1 r1)))
     (fieldPartRe s))"

text \<open>\<open>arithmeticPattern.FindStringSubmatch\<close>: the leftmost match, its submatches.\<close>

fun FindStringSubmatch :: "string \<Rightarrow> (string \<times> string \<times> string \<times> string \<times> string) option" where
  "FindStringSubmatch [] = None"
| "FindStringSubmatch (c # cs) =
     (case arithmeticMatches (c # cs) of
        m # _ \<Rightarrow> Some m
      | [] \<Rightarrow> FindStringSubmatch cs)"

text \<open>The function given to \<open>ReplaceAllStringFunc\<close>.\<close>

definition replaceArithmetic :: "string \<Rightarrow> string" where
  "replaceArithmetic match =
     (case FindStringSubmatch match of
        None \<Rightarrow> match
      | Some (fieldPart, firstNum, w, expression, endingChar) \<Rightarrow>
          if ContainsAny expression ''*+-/()'' then fieldPart @ firstNum @ endingChar
          else match)"

text \<open>
  \<open>arithmeticPattern.ReplaceAllStringFunc\<close>: the matches are taken from left to right and
  do not overlap; a match of this expression is never empty.
\<close>

fun fixArithmeticExpressions :: "string \<Rightarrow> string" where
  "fixArithmeticExpressions [] = []"
| "fixArithmeticExpressions (c # cs) =
     (case arithmeticMatches (c # cs) of
        [] \<Rightarrow> c # fixArithmeticExpressions cs
      | (g1, g2, w, g3, g4) # _ \<Rightarrow>
          replaceArithmetic (g1 @ g2 @ w @ g3 @ g4)
            @ fixArithmeticExpressions (drop (length (g1 @ g2 @ w @ g3 @ g4) - 1) cs))"

subsection \<open>extractCoTTrace and extractDecisions\<close>

definition extractCoTTrace :: "string \<Rightarrow> string" where
  "extractCoTTrace response =
     (case Index response ''['' of
        Some jsonStart \<Rightarrow>
          if jsonStart > 0 then TrimSpace (slice response 0 jsonStart) else TrimSpace response
      | None \<Rightarrow> TrimSpace response)"

text \<open>
  \<open>findMatchingBracket\<close>: \<open>bracketScan\<close> is its loop, over the bytes from index \<open>i\<close> on with
  the current \<open>depth\<close>; \<open>None\<close> is the result \<open>-1\<close>.
\<close>

fun bracketScan :: "string \<Rightarrow> nat \<Rightarrow> int \<Rightarrow> nat option" where
  "bracketScan [] i depth = None"
| "bracketScan (c # cs) i depth =
     (if c = CHR ''['' then bracketScan cs (Suc i) (depth + 1)
      else if c = CHR '']'' then
        (if depth - 1 = 0 then Some i else bracketScan cs (Suc i) (depth - 1))
      else bracketScan cs (Suc i) depth)"

definition findMatchingBracket :: "string \<Rightarrow> nat \<Rightarrow> nat option" where
  "findMatchingBracket s start =
     (if start \<ge> length s \<or> s ! start \<noteq> CHR ''['' then None
      else bracketScan (drop start s) start 0)"

text \<open>The three synthetic \<open>wait\<close> decisions; the reasons are the UTF-8 bytes of the source's texts.\<close>

definition msgNoArray :: string where
  "msgNoArray = ''AI'' @ [CHR 0xE5, CHR 0x93, CHR 0x8D, CHR 0xE5, CHR 0xBA, CHR 0x94, CHR 0xE6, CHR 0xA0,
     CHR 0xBC, CHR 0xE5, CHR 0xBC, CHR 0x8F, CHR 0xE9, CHR 0x94, CHR 0x99, CHR 0xE8, CHR 0xAF, CHR 0xAF,
     CHR 0xEF, CHR 0xBC, CHR 0x8C, CHR 0xE6, CHR 0x9C, CHR 0xAA, CHR 0xE6, CHR 0x89, CHR 0xBE, CHR 0xE5,
     CHR 0x88, CHR 0xB0] @ ''JSON'' @ [CHR 0xE6, CHR 0x95, CHR 0xB0, CHR 0xE7, CHR 0xBB, CHR 0x84]"

definition msgIncomplete :: string where
  "msgIncomplete = ''AI'' @ [CHR 0xE5, CHR 0x93, CHR 0x8D, CHR 0xE5, CHR 0xBA, CHR 0x94, CHR 0xE6, CHR 0xA0,
     CHR 0xBC, CHR 0xE5, CHR 0xBC, CHR 0x8F, CHR 0xE9, CHR 0x94, CHR 0x99, CHR 0xE8, CHR 0xAF, CHR 0xAF,
     CHR 0xEF, CHR 0xBC, CHR 0x8C] @ ''JSON'' @ [CHR 0xE6, CHR 0x95, CHR 0xB0, CHR 0xE7, CHR 0xBB, CHR 0x84,
     CHR 0xE4, CHR 0xB8, CHR 0x8D, CHR 0xE5, CHR 0xAE, CHR 0x8C, CHR 0xE6, CHR 0x95, CHR 0xB4]"

definition msgParseFailed :: "string \<Rightarrow> string" where
  "msgParseFailed err = ''JSON'' @ [CHR 0xE8, CHR 0xA7, CHR 0xA3, CHR 0xE6, CHR 0x9E, CHR 0x90, CHR 0xE5,
     CHR 0xA4, CHR 0xB1, CHR 0xE8, CHR 0xB4, CHR 0xA5] @ '': '' @ err"

definition waitDecision :: "string \<Rightarrow> decision" where
  "waitDecision reason = zeroDecision\<lparr>Symbol := [], Action := ''wait'', Reasoning := reason\<rparr>"

definition hasDecisionKeyword :: "string \<Rightarrow> bool" where
  "hasDecisionKeyword jsonContent \<longleftrightarrow>
     Contains jsonContent ([CHR 0x22] @ ''symbol'' @ [CHR 0x22])
     \<or> Contains jsonContent ([CHR 0x22] @ ''action'' @ [CHR 0x22])"

text \<open>
  The \<open>for\<close> loop of \<open>extractDecisions\<close>, from \<open>searchStart\<close>: \<open>None\<close> is the \<open>break\<close>, \<open>Some\<close> the
  \<open>return decisions, nil\<close> inside the loop, given with the \<open>arrayStart\<close> of the block that
  was decoded. \<open>unmarshal\<close> stands for \<open>json.Unmarshal\<close> into \<open>[]Decision\<close> (\<open>Inl\<close> its error).
\<close>

function scanArrays ::
  "(string \<Rightarrow> string + decision list) \<Rightarrow> string \<Rightarrow> nat \<Rightarrow> (nat \<times> decision list) option" where
  "scanArrays unmarshal response searchStart =
     (case Index (drop searchStart response) ''['' of
        None \<Rightarrow> None
      | Some k \<Rightarrow>
          (let arrayStart = k + searchStart
           in case findMatchingBracket response arrayStart of
                None \<Rightarrow> scanArrays unmarshal response (arrayStart + 1)
              | Some arrayEnd \<Rightarrow>
                  (let jsonContent = TrimSpace (slice response arrayStart (arrayEnd + 1))
                   in if \<not> hasDecisionKeyword jsonContent
                      then scanArrays unmarshal response (arrayEnd + 1)
                      else
                        (case unmarshal (fixArithmeticExpressions (fixMissingQuotes jsonContent)) of
                           Inr decisions \<Rightarrow>
                             if length decisions > 0 \<and> Symbol (decisions ! 0) \<noteq> []
                             then Some (arrayStart, decisions)
                             else scanArrays unmarshal response (arrayEnd + 1)
                         | Inl err \<Rightarrow> scanArrays unmarshal response (arrayEnd + 1)))))"
  by pat_completeness auto
termination
proof (relation "measure (\<lambda>(u, response, searchStart). length response - searchStart)")
  have idx: "k < length s" if "Index s ''['' = Some k" for s k
    using that by (induction s arbitrary: k) (auto split: if_splits)
  have scan: "i \<le> e" if "bracketScan s i depth = Some e" for s i depth e
    using that by (induction s i depth rule: bracketScan.induct) (auto split: if_splits)
  have fmb: "start \<le> e" if "findMatchingBracket s start = Some e" for s start e
    using that scan by (auto simp: findMatchingBracket_def split: if_splits)
  show "wf (measure (\<lambda>(u, response, searchStart). length response - searchStart))"
    by simp
  fix unmarshal :: "string \<Rightarrow> string + decision list"
  fix response :: string and searchStart k arrayStart :: nat
  assume a: "Index (drop searchStart response) ''['' = Some k" "arrayStart = k + searchStart"
  from idx[OF a(1)] have lt: "k + searchStart < length response" by simp
  show "((unmarshal, response, arrayStart + 1), (unmarshal, response, searchStart))
          \<in> measure (\<lambda>(u, response, searchStart). length response - searchStart)"
    using lt a(2) by simp
  fix arrayEnd :: nat
  assume b: "findMatchingBracket response arrayStart = Some arrayEnd"
  from fmb[OF b] have "arrayStart \<le> arrayEnd" .
  then show "((unmarshal, response, arrayEnd + 1), (unmarshal, response, searchStart))
          \<in> measure (\<lambda>(u, response, searchStart). length response - searchStart)"
    using lt a(2) by simp
  then show "((unmarshal, response, arrayEnd + 1), (unmarshal, response, searchStart))
          \<in> measure (\<lambda>(u, response, searchStart). length response - searchStart)" .
  then show "((unmarshal, response, arrayEnd + 1), (unmarshal, response, searchStart))
          \<in> measure (\<lambda>(u, response, searchStart). length response - searchStart)" .
qed

declare scanArrays.simps [simp del]

text \<open>
  \<open>extractDecisions\<close>: the decisions and the error, which is \<open>nil\<close> at every \<open>return\<close> of the
  source. \<open>acceptedArray\<close> is the \<open>arrayStart\<close> of the block whose decoding is returned, in
  the loop or after it (no block when a synthetic decision is returned).
\<close>

definition acceptedArray :: "(string \<Rightarrow> string + decision list) \<Rightarrow> string \<Rightarrow> nat option" where
  "acceptedArray unmarshal response =
     (case scanArrays unmarshal response 0 of
        Some (arrayStart, decisions) \<Rightarrow> Some arrayStart
      | None \<Rightarrow>
          (case LastIndex response ''['' of
             None \<Rightarrow> None
           | Some arrayStart \<Rightarrow>
               (case findMatchingBracket response arrayStart of
                  None \<Rightarrow> None
                | Some arrayEnd \<Rightarrow>
                    (case unmarshal (fixArithmeticExpressions (fixMissingQuotes
                                       (TrimSpace (slice response arrayStart (arrayEnd + 1))))) of
                       Inl err \<Rightarrow> None
                     | Inr decisions \<Rightarrow> Some arrayStart))))"

definition extractDecisions ::
  "(string \<Rightarrow> string + decision list) \<Rightarrow> string \<Rightarrow> decision list \<times> string option" where
  "extractDecisions unmarshal response =
     (case scanArrays unmarshal response 0 of
        Some (arrayStart, decisions) \<Rightarrow> (decisions, None)
      | None \<Rightarrow>
          (case LastIndex response ''['' of
             None \<Rightarrow> ([waitDecision msgNoArray], None)
           | Some arrayStart \<Rightarrow>
               (case findMatchingBracket response arrayStart of
                  None \<Rightarrow> ([waitDecision msgIncomplete], None)
                | Some arrayEnd \<Rightarrow>
                    (let jsonContent = TrimSpace (slice response arrayStart (arrayEnd + 1))
                     in case unmarshal (fixArithmeticExpressions (fixMissingQuotes jsonContent)) of
                          Inl err \<Rightarrow> ([waitDecision (msgParseFailed err)], None)
                        | Inr decisions \<Rightarrow> (decisions, None)))))"

subsection \<open>normalizeDecisions\<close>

definition noteMin :: string where
  "noteMin = '' | '' @ [CHR 0xE5, CHR 0xB7, CHR 0xB2, CHR 0xE6, CHR 0x8C, CHR 0x89, CHR 0xE6, CHR 0x9C,
     CHR 0x80, CHR 0xE5, CHR 0xB0, CHR 0x8F, CHR 0xE4, CHR 0xBB, CHR 0x93, CHR 0xE4, CHR 0xBD, CHR 0x8D,
     CHR 0xE9, CHR 0x99, CHR 0x90, CHR 0xE5, CHR 0x88, CHR 0xB6, CHR 0xE8, CHR 0xB0, CHR 0x83, CHR 0xE6,
     CHR 0x95, CHR 0xB4, CHR 0xE4, CHR 0xB8, CHR 0xBA] @ '' ''"

definition noteMax :: string where
  "noteMax = '' | '' @ [CHR 0xE5, CHR 0xB7, CHR 0xB2, CHR 0xE6, CHR 0x8C, CHR 0x89, CHR 0xE6, CHR 0x9C,
     CHR 0x80, CHR 0xE5, CHR 0xA4, CHR 0xA7, CHR 0xE4, CHR 0xBB, CHR 0x93, CHR 0xE4, CHR 0xBD, CHR 0x8D,
     CHR 0xE9, CHR 0x99, CHR 0x90, CHR 0xE5, CHR 0x88, CHR 0xB6, CHR 0xE6, CHR 0x88, CHR 0xAA, CHR 0xE6,
     CHR 0x96, CHR 0xAD]"

text \<open>The body of the loop, for one element; \<open>size\<close> is read once, before both tests.\<close>

definition normalizeDecision :: "real \<Rightarrow> real \<Rightarrow> decision \<Rightarrow> decision" where
  "normalizeDecision minPositionSizeUSD maxPositionSizeUSD d =
     (if Action d = ''open_long'' \<or> Action d = ''open_short'' then
        (let sz = PositionSizeUSD d;
             d1 = (if minPositionSizeUSD > 0 \<and> sz > 0 \<and> sz < minPositionSizeUSD
                   then d\<lparr>PositionSizeUSD := minPositionSizeUSD,
                          Reasoning := (if Reasoning d \<noteq> [] then Reasoning d @ noteMin else Reasoning d)\<rparr>
                   else d);
             d2 = (if maxPositionSizeUSD > 0 \<and> sz > maxPositionSizeUSD
                   then d1\<lparr>PositionSizeUSD := maxPositionSizeUSD,
                           Reasoning := (if Reasoning d1 \<noteq> [] then Reasoning d1 @ noteMax else Reasoning d1)\<rparr>
                   else d1)
         in d2)
      else d)"

definition normalizeDecisions :: "decision list \<Rightarrow> real \<Rightarrow> real \<Rightarrow> decision list" where
  "normalizeDecisions decisions minPositionSizeUSD maxPositionSizeUSD =
     map (normalizeDecision minPositionSizeUSD maxPositionSizeUSD) decisions"

subsection \<open>validateDecision\<close>

text \<open>One constructor for each \<open>fmt.Errorf\<close> of \<open>validateDecision\<close>, in source order.\<close>

datatype validation_error =
    InvalidAction string
  | LeverageOutOfRange int string int
  | PositionSizeNotPositive real
  | PositionSizeBelowMin real real
  | PositionSizeAboveMax real real
  | PositionValueAboveBtcEthLimit real real
  | PositionValueAboveAltcoinLimit real real
  | StopsNotPositive
  | LongStopNotBelowTarget real real
  | ShortStopNotAboveTarget real real
  | RiskRewardTooLow real real real real real

definition validActions :: "string list" where
  "validActions = [''open_long'', ''open_short'', ''close_long'', ''close_short'', ''hold'', ''wait'']"

definition isBtcEth :: "string \<Rightarrow> bool" where
  "isBtcEth symbol \<longleftrightarrow> symbol = ''BTCUSDT'' \<or> symbol = ''ETHUSDT''"

text \<open>The local variables \<open>maxLeverage\<close> and \<open>maxPositionValue\<close>.\<close>

definition maxLeverage :: "string \<Rightarrow> int \<Rightarrow> int \<Rightarrow> int" where
  "maxLeverage symbol btcEthLeverage altcoinLeverage =
     (if isBtcEth symbol then btcEthLeverage else altcoinLeverage)"

definition maxPositionValue :: "string \<Rightarrow> real \<Rightarrow> real" where
  "maxPositionValue symbol accountEquity =
     (if isBtcEth symbol then accountEquity * 10 else accountEquity * 1.5)"

text \<open>
  The local variables \<open>entryPrice\<close>, \<open>riskPercent\<close>, \<open>rewardPercent\<close> and
  \<open>riskRewardRatio\<close>. The source computes them only after both stops were found positive
  and in the order the direction requires, where \<open>entryPrice\<close> is positive; \<open>x / 0\<close> is
  \<open>0\<close> in HOL, which matters on no path of \<open>validateDecision\<close>.
\<close>

definition entryPrice :: "decision \<Rightarrow> real" where
  "entryPrice d =
     (if Action d = ''open_long''
      then StopLoss d + (TakeProfit d - StopLoss d) * 0.2
      else StopLoss d - (StopLoss d - TakeProfit d) * 0.2)"

definition riskPercent :: "decision \<Rightarrow> real" where
  "riskPercent d =
     (if Action d = ''open_long''
      then (entryPrice d - StopLoss d) / entryPrice d * 100
      else (StopLoss d - entryPrice d) / entryPrice d * 100)"

definition rewardPercent :: "decision \<Rightarrow> real" where
  "rewardPercent d =
     (if Action d = ''open_long''
      then (TakeProfit d - entryPrice d) / entryPrice d * 100
      else (entryPrice d - TakeProfit d) / entryPrice d * 100)"

definition riskRewardRatio :: "decision \<Rightarrow> real" where
  "riskRewardRatio d = (if riskPercent d > 0 then rewardPercent d / riskPercent d else 0)"

definition validateDecision ::
  "decision \<Rightarrow> real \<Rightarrow> int \<Rightarrow> int \<Rightarrow> real \<Rightarrow> real \<Rightarrow> validation_error option" where
  "validateDecision d accountEquity btcEthLeverage altcoinLeverage minPositionSizeUSD maxPositionSizeUSD =
    (if Action d \<notin> set validActions then Some (InvalidAction (Action d))
     else if Action d = ''open_long'' \<or> Action d = ''open_short'' then
       (let maxLev = maxLeverage (Symbol d) btcEthLeverage altcoinLeverage;
            maxVal = maxPositionValue (Symbol d) accountEquity
        in
        if Leverage d \<le> 0 \<or> Leverage d > maxLev
          then Some (LeverageOutOfRange maxLev (Symbol d) (Leverage d))
        else if PositionSizeUSD d \<le> 0
          then Some (PositionSizeNotPositive (PositionSizeUSD d))
        else if minPositionSizeUSD > 0 \<and> PositionSizeUSD d < minPositionSizeUSD
          then Some (PositionSizeBelowMin (PositionSizeUSD d) minPositionSizeUSD)
        else if maxPositionSizeUSD > 0 \<and> PositionSizeUSD d > maxPositionSizeUSD
          then Some (PositionSizeAboveMax (PositionSizeUSD d) maxPositionSizeUSD)
        else if \<not> maxPositionSizeUSD > 0 \<and> PositionSizeUSD d > maxVal + maxVal * 0.01
          then (if isBtcEth (Symbol d)
                then Some (PositionValueAboveBtcEthLimit maxVal (PositionSizeUSD d))
                else Some (PositionValueAboveAltcoinLimit maxVal (PositionSizeUSD d)))
        else if StopLoss d \<le> 0 \<or> TakeProfit d \<le> 0
          then Some StopsNotPositive
        else if Action d = ''open_long'' \<and> StopLoss d \<ge> TakeProfit d
          then Some (LongStopNotBelowTarget (StopLoss d) (TakeProfit d))
        else if Action d \<noteq> ''open_long'' \<and> StopLoss d \<le> TakeProfit d
          then Some (ShortStopNotAboveTarget (StopLoss d) (TakeProfit d))
        else if riskRewardRatio d < 3.0
          then Some (RiskRewardTooLow (riskRewardRatio d) (riskPercent d) (rewardPercent d)
                       (StopLoss d) (TakeProfit d))
        else None)
     else None)"

subsection \<open>validateDecisions, parseFullDecisionResponse and GetFullDecision\<close>

text \<open>The error of \<open>validateDecisions\<close>: the number of the decision, from 1, and its error.\<close>

datatype batch_error = DecisionInvalid nat validation_error

text \<open>The \<open>for i, decision := range decisions\<close> loop, from index \<open>i\<close>.\<close>

fun validateFrom ::
  "nat \<Rightarrow> decision list \<Rightarrow> real \<Rightarrow> int \<Rightarrow> int \<Rightarrow> real \<Rightarrow> real \<Rightarrow> batch_error option" where
  "validateFrom i [] accountEquity btcEthLeverage altcoinLeverage minPositionSizeUSD maxPositionSizeUSD = None"
| "validateFrom i (d # ds) accountEquity btcEthLeverage altcoinLeverage minPositionSizeUSD maxPositionSizeUSD =
     (case validateDecision d accountEquity btcEthLeverage altcoinLeverage minPositionSizeUSD maxPositionSizeUSD of
        Some err \<Rightarrow> Some (DecisionInvalid (i + 1) err)
      | None \<Rightarrow>
          validateFrom (i + 1) ds accountEquity btcEthLeverage altcoinLeverage
            minPositionSizeUSD maxPositionSizeUSD)"

definition validateDecisions ::
  "decision list \<Rightarrow> real \<Rightarrow> int \<Rightarrow> int \<Rightarrow> real \<Rightarrow> real \<Rightarrow> batch_error option" where
  "validateDecisions decisions accountEquity btcEthLeverage altcoinLeverage minPositionSizeUSD maxPositionSizeUSD =
     validateFrom 0 decisions accountEquity btcEthLeverage altcoinLeverage
       minPositionSizeUSD maxPositionSizeUSD"

text \<open>\<open>type FullDecision struct\<close>, without the time stamp.\<close>

record full_decision =
  UserPrompt :: string
  CoTTrace :: string
  Decisions :: "decision list"

text \<open>The two errors of \<open>parseFullDecisionResponse\<close>, each with the trace it quotes.\<close>

datatype parse_error =
    ExtractFailed string string
  | ValidationFailed batch_error string

text \<open>
  \<open>parseFullDecisionResponse\<close> returns a \<open>FullDecision\<close> and an error together: the pair of
  both, the error \<open>None\<close> for \<open>nil\<close>.
\<close>

definition parseFullDecisionResponse ::
  "(string \<Rightarrow> string + decision list) \<Rightarrow> string \<Rightarrow> real \<Rightarrow> int \<Rightarrow> int \<Rightarrow> real \<Rightarrow> real
     \<Rightarrow> full_decision \<times> parse_error option" where
  "parseFullDecisionResponse unmarshal aiResponse accountEquity btcEthLeverage altcoinLeverage
       minPositionSizeUSD maxPositionSizeUSD =
     (let cotTrace = extractCoTTrace aiResponse
      in case extractDecisions unmarshal aiResponse of
           (decisions, Some err) \<Rightarrow>
             (\<lparr>UserPrompt = [], CoTTrace = cotTrace, Decisions = []\<rparr>,
              Some (ExtractFailed err cotTrace))
         | (decisions, None) \<Rightarrow>
             (let normalized = normalizeDecisions decisions minPositionSizeUSD maxPositionSizeUSD
              in case validateDecisions normalized accountEquity btcEthLeverage altcoinLeverage
                        minPositionSizeUSD maxPositionSizeUSD of
                   Some err \<Rightarrow>
                     (\<lparr>UserPrompt = [], CoTTrace = cotTrace, Decisions = normalized\<rparr>,
                      Some (ValidationFailed err cotTrace))
                 | None \<Rightarrow>
                     (\<lparr>UserPrompt = [], CoTTrace = cotTrace, Decisions = normalized\<rparr>, None)))"

text \<open>
  \<open>GetFullDecision\<close> from its step 3 on. \<open>aiResult\<close> is what \<open>mcpClient.CallWithMessages\<close>
  returned (\<open>Inl\<close> the text of its error) and \<open>userPrompt\<close> the prompt that was sent; the
  fetching of market data before (whose error is always \<open>nil\<close>) and the building of the
  prompts are not part of this function's model. The result is the \<open>FullDecision\<close> or the
  error, never both: on an error the source returns \<open>nil\<close> for the decision.
\<close>

datatype get_error =
    CallAIFailed string
  | ParseResponseFailed parse_error

definition GetFullDecision ::
  "(string \<Rightarrow> string + decision list) \<Rightarrow> string \<Rightarrow> string + string \<Rightarrow> real \<Rightarrow> int \<Rightarrow> int \<Rightarrow> real \<Rightarrow> real
     \<Rightarrow> get_error + full_decision" where
  "GetFullDecision unmarshal userPrompt aiResult accountEquity btcEthLeverage altcoinLeverage
       minPositionSizeUSD maxPositionSizeUSD =
     (case aiResult of
        Inl err \<Rightarrow> Inl (CallAIFailed err)
      | Inr aiResponse \<Rightarrow>
          (case parseFullDecisionResponse unmarshal aiResponse accountEquity btcEthLeverage
                  altcoinLeverage minPositionSizeUSD maxPositionSizeUSD of
             (decision, Some err) \<Rightarrow> Inl (ParseResponseFailed err)
           | (decision, None) \<Rightarrow> Inr (decision\<lparr>UserPrompt := userPrompt\<rparr>)))"

subsection \<open>fetchMarketDataForContext\<close>










section \<open>LLM client (package mcp)\<close>

definition retryableErrors :: "string list" where
  "retryableErrors =
     [''EOF'', ''timeout'', ''connection reset'', ''connection refused'', ''temporary failure'',
      ''no such host'']"

definition isRetryableError :: "string \<Rightarrow> bool" where
  "isRetryableError errStr \<longleftrightarrow> list_ex (\<lambda>retryable. Contains errStr retryable) retryableErrors"

text \<open>
  What \<open>CallWithMessages\<close> returns as error: the missing key, the error of \<open>callOnce\<close> as
  it is, or the last error wrapped after \<open>maxRetries\<close> attempts.
\<close>

datatype call_error =
    ApiKeyNotSet
  | CallOnceError string
  | RetriesFailed nat "string option"

text \<open>What the function does besides returning: calls of \<open>callOnce\<close> and sleeps, in seconds.\<close>

datatype call_event = CallOnce nat | Sleep nat

text \<open>
  The \<open>for attempt := 1; attempt <= maxRetries; attempt++\<close> loop. \<open>callOnce k\<close> is the
  outcome of the \<open>k\<close>-th call of \<open>cfg.callOnce\<close> (\<open>Inl\<close> the text of its error). The result
  comes with the events in the order they happen.
\<close>

function retryLoop ::
  "(nat \<Rightarrow> string + string) \<Rightarrow> nat \<Rightarrow> nat \<Rightarrow> string option
     \<Rightarrow> (call_error + string) \<times> call_event list" where
  "retryLoop callOnce maxRetries attempt lastErr =
     (if attempt \<le> maxRetries then
        (case callOnce attempt of
           Inr result \<Rightarrow> (Inr result, [CallOnce attempt])
         | Inl err \<Rightarrow>
             if \<not> isRetryableError err then (Inl (CallOnceError err), [CallOnce attempt])
             else
               (let (r, evs) = retryLoop callOnce maxRetries (attempt + 1) (Some err)
                in (r, CallOnce attempt
                         # (if attempt < maxRetries then [Sleep (attempt * 2)] else []) @ evs)))
      else (Inl (RetriesFailed maxRetries lastErr), []))"
  by pat_completeness auto
termination
  by (relation "measure (\<lambda>(c, maxRetries, attempt, l). Suc maxRetries - attempt)") auto

declare retryLoop.simps [simp del]

definition CallWithMessages ::
  "string \<Rightarrow> (nat \<Rightarrow> string + string) \<Rightarrow> (call_error + string) \<times> call_event list" where
  "CallWithMessages apiKey callOnce =
     (if apiKey = [] then (Inl ApiKeyNotSet, []) else retryLoop callOnce 3 1 None)"

section \<open>Outside-day detector (package indicator)\<close>







section \<open>Example inputs\<close>

text \<open>Responses of the model, a market-data source, a series of bars and an unreliable endpoint.\<close>

definition priceThenDecisions :: string where
  \<open>priceThenDecisions =
     ''Prices [100000, 100100, 100200] then [{"symbol":"BTCUSDT","action":"wait","reasoning":"x"}]''\<close>

definition plainResponse :: string where
  \<open>plainResponse = ''No setup. [{"symbol":"BTCUSDT","action":"wait","reasoning":"x"}]''\<close>

definition badThenGood :: string where
  \<open>badThenGood =
     ''Plan: [{"symbol":"SOLUSDT","action":"open_long","leverage":25,"position_size_usd":100,"stop_loss":100,"take_profit":200,"reasoning":"a"},{"symbol":"BTCUSDT","action":"wait","reasoning":"b"}]''\<close>



definition flaky :: "nat \<Rightarrow> string + string" where
  "flaky k = (if k = 1 then Inl ''read tcp: connection reset by peer''
              else if k = 2 then Inl ''unexpected EOF''
              else Inl ''context deadline exceeded (Client.Timeout exceeded): timeout'')"

section \<open>Properties\<close>

subsection \<open>The substring test\<close>

text \<open>\<open>Contains\<close>, defined through \<open>Index\<close>, is the substring relation.\<close>

lemma HasPrefix_iff: "HasPrefix s p \<longleftrightarrow> (\<exists>t. s = p @ t)"
  by (induction s p rule: HasPrefix.induct) auto

lemma Contains_iff: "Contains s substr \<longleftrightarrow> (\<exists>a b. s = a @ substr @ b)"
proof (induction s)
  case Nil
  then show ?case by (simp add: Contains_def)
next
  case (Cons c cs)
  have "Contains (c # cs) substr \<longleftrightarrow> HasPrefix (c # cs) substr \<or> Contains cs substr"
    by (simp add: Contains_def)
  also have "\<dots> \<longleftrightarrow> (\<exists>t. c # cs = substr @ t) \<or> (\<exists>a b. cs = a @ substr @ b)"
    by (simp only: HasPrefix_iff Cons.IH)
  also have "\<dots> \<longleftrightarrow> (\<exists>a b. c # cs = a @ substr @ b)"
  proof
    assume "(\<exists>t. c # cs = substr @ t) \<or> (\<exists>a b. cs = a @ substr @ b)"
    then show "\<exists>a b. c # cs = a @ substr @ b"
    proof
      assume "\<exists>t. c # cs = substr @ t"
      then obtain t where "c # cs = [] @ substr @ t" by auto
      then show ?thesis by blast
    next
      assume "\<exists>a b. cs = a @ substr @ b"
      then obtain a b where "c # cs = (c # a) @ substr @ b" by auto
      then show ?thesis by blast
    qed
  next
    assume "\<exists>a b. c # cs = a @ substr @ b"
    then obtain a b where ab: "c # cs = a @ substr @ b" by blast
    show "(\<exists>t. c # cs = substr @ t) \<or> (\<exists>a b. cs = a @ substr @ b)"
    proof (cases a)
      case Nil
      with ab show ?thesis by auto
    next
      case (Cons x xs)
      with ab have "cs = xs @ substr @ b" by simp
      then show ?thesis by blast
    qed
  qed
  finally show ?case .
qed

subsection \<open>Risk/reward validation\<close>

lemmas validate_defs = validateDecision_def validActions_def maxLeverage_def maxPositionValue_def
  isBtcEth_def riskRewardRatio_def riskPercent_def rewardPercent_def entryPrice_def

lemma entry_long:
  assumes "Action d = ''open_long''"
  shows "entryPrice d - StopLoss d = 0.2 * (TakeProfit d - StopLoss d)"
    and "TakeProfit d - entryPrice d = 0.8 * (TakeProfit d - StopLoss d)"
    and "entryPrice d = 0.8 * StopLoss d + 0.2 * TakeProfit d"
  using assms by (simp_all add: entryPrice_def field_simps)


lemma rr_long:
  assumes a: "Action d = ''open_long''" and p: "0 < StopLoss d" and lt: "StopLoss d < TakeProfit d"
  shows "riskRewardRatio d = 4"
proof -
  let ?span = "TakeProfit d - StopLoss d"
  have e: "entryPrice d > 0" using entry_long(3)[OF a] p lt by simp
  have span: "?span > 0" using lt by simp
  have risk: "riskPercent d = 0.2 * ?span / entryPrice d * 100"
    by (simp only: riskPercent_def a if_True refl entry_long(1)[OF a])
  have reward: "rewardPercent d = 0.8 * ?span / entryPrice d * 100"
    by (simp only: rewardPercent_def a if_True refl entry_long(2)[OF a])
  have rpos: "riskPercent d > 0" unfolding risk using e span by simp
  have "rewardPercent d / riskPercent d = 4"
    unfolding risk reward using e span by (simp add: field_simps)
  with rpos show ?thesis by (simp add: riskRewardRatio_def)
qed



text \<open>
  C1, as stated, fails: the \<open>open_long\<close> on \<open>BTCUSDT\<close> with \<open>stop_loss = 100000\<close> and
  \<open>take_profit = 100600\<close> is not rejected. Its entry is taken at \<open>100120\<close>, a fifth of the
  way from the stop to the target, and the ratio computed is \<open>4\<close>, not \<open>2.33\<close>.
\<close>

theorem rr_boundary_second_not_rejected:
  "validateDecision
     \<lparr>Symbol = ''BTCUSDT'', Action = ''open_long'', Leverage = 5, PositionSizeUSD = 100,
      StopLoss = 100000, TakeProfit = 100600, Confidence = 0, RiskUSD = 0, Reasoning = []\<rparr>
     1000 10 5 0 0 = None
   \<and> entryPrice
     \<lparr>Symbol = ''BTCUSDT'', Action = ''open_long'', Leverage = 5, PositionSizeUSD = 100,
      StopLoss = 100000, TakeProfit = 100600, Confidence = 0, RiskUSD = 0, Reasoning = []\<rparr>
     = 100120
   \<and> riskRewardRatio
     \<lparr>Symbol = ''BTCUSDT'', Action = ''open_long'', Leverage = 5, PositionSizeUSD = 100,
      StopLoss = 100000, TakeProfit = 100600, Confidence = 0, RiskUSD = 0, Reasoning = []\<rparr>
     = 4"
  by (simp add: validate_defs)

text \<open>
  C1, amended. With the other bounds satisfied (leverage within the cap of the symbol,
  position size positive and within the configured or the equity-derived limits), an
  \<open>open_long\<close> with \<open>stop_loss = 100000\<close> is accepted with \<open>take_profit = 100900\<close> and is
  accepted as well with \<open>take_profit = 100600\<close>: the entry is approximated at \<open>100180\<close> and at
  \<open>100120\<close>, and the ratio computed is \<open>4\<close> in both cases.
\<close>

theorem rr_boundary_both_accepted:
  assumes "Action d = ''open_long''"
    and "StopLoss d = 100000"
    and "TakeProfit d = 100900 \<or> TakeProfit d = 100600"
    and "0 < Leverage d" and "Leverage d \<le> maxLeverage (Symbol d) btc alt"
    and "0 < PositionSizeUSD d"
    and "\<not> (mn > 0 \<and> PositionSizeUSD d < mn)"
    and "if mx > 0 then PositionSizeUSD d \<le> mx
         else PositionSizeUSD d \<le> maxPositionValue (Symbol d) eq + maxPositionValue (Symbol d) eq * 0.01"
  shows "validateDecision d eq btc alt mn mx = None
         \<and> riskRewardRatio d = 4
         \<and> entryPrice d = (if TakeProfit d = 100900 then 100180 else 100120)"
proof -
  have rr: "riskRewardRatio d = 4"
    using assms(1-3) by (intro rr_long) auto
  have entry: "entryPrice d = (if TakeProfit d = 100900 then 100180 else 100120)"
    using assms(1-3) by (auto simp: entryPrice_def)
  have "validateDecision d eq btc alt mn mx = None"
    using assms rr by (auto simp: validateDecision_def validActions_def Let_def split: if_splits)
  with rr entry show ?thesis by simp
qed

theorem rr_boundary_both_accepted_witness:
  "validateDecision
     \<lparr>Symbol = ''BTCUSDT'', Action = ''open_long'', Leverage = 5, PositionSizeUSD = 100,
      StopLoss = 100000, TakeProfit = 100900, Confidence = 0, RiskUSD = 0, Reasoning = []\<rparr>
     1000 10 5 0 0 = None
   \<and> riskRewardRatio
     \<lparr>Symbol = ''BTCUSDT'', Action = ''open_long'', Leverage = 5, PositionSizeUSD = 100,
      StopLoss = 100000, TakeProfit = 100900, Confidence = 0, RiskUSD = 0, Reasoning = []\<rparr>
     = 4
   \<and> entryPrice
     \<lparr>Symbol = ''BTCUSDT'', Action = ''open_long'', Leverage = 5, PositionSizeUSD = 100,
      StopLoss = 100000, TakeProfit = 100900, Confidence = 0, RiskUSD = 0, Reasoning = []\<rparr>
     = 100180"
  using rr_boundary_both_accepted
    [of "\<lparr>Symbol = ''BTCUSDT'', Action = ''open_long'', Leverage = 5, PositionSizeUSD = 100,
          StopLoss = 100000, TakeProfit = 100900, Confidence = 0, RiskUSD = 0, Reasoning = []\<rparr>"
        10 5 0 0 1000]
  by (simp add: maxLeverage_def maxPositionValue_def isBtcEth_def)



subsection \<open>Leverage caps\<close>

text \<open>
  C4. An opening decision (\<open>open_long\<close> or \<open>open_short\<close>) that \<open>validateDecision\<close> accepts
  has a leverage between 1 and the cap of its symbol, the cap being the BTC/ETH cap for
  \<open>BTCUSDT\<close> and \<open>ETHUSDT\<close> and the altcoin cap for every other symbol; and an opening
  decision whose leverage is above that cap is rejected, with the leverage error.
\<close>

theorem leverage_within_cap:
  "(Action d = ''open_long'' \<or> Action d = ''open_short'') \<longrightarrow>
     (validateDecision d eq btc alt mn mx = None \<longrightarrow>
        1 \<le> Leverage d \<and>
        Leverage d \<le> (if Symbol d = ''BTCUSDT'' \<or> Symbol d = ''ETHUSDT'' then btc else alt)) \<and>
     (Leverage d > (if Symbol d = ''BTCUSDT'' \<or> Symbol d = ''ETHUSDT'' then btc else alt) \<longrightarrow>
        validateDecision d eq btc alt mn mx =
          Some (LeverageOutOfRange
                 (if Symbol d = ''BTCUSDT'' \<or> Symbol d = ''ETHUSDT'' then btc else alt)
                 (Symbol d) (Leverage d)))"
  by (auto simp: validateDecision_def validActions_def maxLeverage_def isBtcEth_def Let_def
           split: if_splits)

theorem leverage_within_cap_witness:
  "validateDecision
     \<lparr>Symbol = ''SOLUSDT'', Action = ''open_long'', Leverage = 5, PositionSizeUSD = 100,
      StopLoss = 100, TakeProfit = 200, Confidence = 0, RiskUSD = 0, Reasoning = []\<rparr>
     1000 10 5 0 0 = None
   \<and> validateDecision
     \<lparr>Symbol = ''SOLUSDT'', Action = ''open_long'', Leverage = 25, PositionSizeUSD = 100,
      StopLoss = 100, TakeProfit = 200, Confidence = 0, RiskUSD = 0, Reasoning = []\<rparr>
     1000 10 5 0 0 = Some (LeverageOutOfRange 5 ''SOLUSDT'' 25)"
proof -
  have ok: "validateDecision
     \<lparr>Symbol = ''SOLUSDT'', Action = ''open_long'', Leverage = 5, PositionSizeUSD = 100,
      StopLoss = 100, TakeProfit = 200, Confidence = 0, RiskUSD = 0, Reasoning = []\<rparr>
     1000 10 5 0 0 = None"
    by (simp add: validate_defs)
  from leverage_within_cap
    [of "\<lparr>Symbol = ''SOLUSDT'', Action = ''open_long'', Leverage = 25, PositionSizeUSD = 100,
          StopLoss = 100, TakeProfit = 200, Confidence = 0, RiskUSD = 0, Reasoning = []\<rparr>"
        1000 10 5 0 0]
  have "validateDecision
     \<lparr>Symbol = ''SOLUSDT'', Action = ''open_long'', Leverage = 25, PositionSizeUSD = 100,
      StopLoss = 100, TakeProfit = 200, Confidence = 0, RiskUSD = 0, Reasoning = []\<rparr>
     1000 10 5 0 0 = Some (LeverageOutOfRange 5 ''SOLUSDT'' 25)"
    by simp
  with ok show ?thesis by simp
qed

subsection \<open>Extraction of the decisions\<close>

lemma float64Limit_eq: "float64Limit = 2 ^ 1024 - 2 ^ 970"
  by (simp add: float64Limit_def)

lemma Index_bracket_Some:
  "Index s ''['' = Some k \<longleftrightarrow> k < length s \<and> s ! k = CHR ''['' \<and> CHR ''['' \<notin> set (take k s)"
proof (induction s arbitrary: k)
  case Nil
  then show ?case by simp
next
  case (Cons c cs)
  show ?case
  proof (cases "c = CHR ''[''")
    case True
    then show ?thesis by (cases k) auto
  next
    case False
    then show ?thesis using Cons.IH by (cases k) auto
  qed
qed

lemma Index_bracket_None: "Index s ''['' = None \<longleftrightarrow> CHR ''['' \<notin> set s"
  by (induction s) auto

lemma LastIndex_bracket_Some:
  "LastIndex s ''['' = Some k \<Longrightarrow> k < length s \<and> s ! k = CHR ''[''"
proof (induction s arbitrary: k)
  case Nil
  then show ?case by simp
next
  case (Cons c cs)
  then show ?case by (cases k) (auto split: option.splits if_splits)
qed

lemma bracketScan_range:
  "bracketScan s i depth = Some e \<Longrightarrow> i \<le> e \<and> e < i + length s"
  by (induction s i depth rule: bracketScan.induct) (auto split: if_splits)

lemma findMatchingBracket_Some:
  assumes "findMatchingBracket s start = Some e"
  shows "start \<le> e" and "e < length s" and "s ! start = CHR ''[''"
proof -
  from assms have st: "start < length s" "s ! start = CHR ''[''"
    and sc: "bracketScan (drop start s) start 0 = Some e"
    by (auto simp: findMatchingBracket_def split: if_splits)
  from bracketScan_range[OF sc] st show "start \<le> e" "e < length s" "s ! start = CHR ''[''"
    by auto
qed






lemma scanArrays_sound:
  "scanArrays unmarshal response searchStart = Some (arrayStart, decisions) \<Longrightarrow>
     searchStart \<le> arrayStart \<and>
     (\<exists>arrayEnd. findMatchingBracket response arrayStart = Some arrayEnd
        \<and> hasDecisionKeyword (TrimSpace (slice response arrayStart (arrayEnd + 1)))
        \<and> unmarshal (fixArithmeticExpressions (fixMissingQuotes
             (TrimSpace (slice response arrayStart (arrayEnd + 1))))) = Inr decisions)
     \<and> length decisions > 0 \<and> Symbol (decisions ! 0) \<noteq> []"
proof (induction unmarshal response searchStart rule: scanArrays.induct)
  case (1 unmarshal response searchStart)
  from "1.prems" obtain k where k: "Index (drop searchStart response) ''['' = Some k"
    by (subst (asm) scanArrays.simps) (auto split: option.splits)
  let ?a = "k + searchStart"
  show ?case
  proof (cases "findMatchingBracket response ?a")
    case None
    with k "1.prems" have "scanArrays unmarshal response (?a + 1) = Some (arrayStart, decisions)"
      by (subst (asm) scanArrays.simps) (simp add: Let_def)
    from "1.IH"(1)[OF k refl None this] show ?thesis by auto
  next
    case (Some arrayEnd)
    let ?c = "TrimSpace (slice response ?a (arrayEnd + 1))"
    show ?thesis
    proof (cases "hasDecisionKeyword ?c")
      case False
      with k Some "1.prems" have "scanArrays unmarshal response (arrayEnd + 1) = Some (arrayStart, decisions)"
        by (subst (asm) scanArrays.simps) (simp add: Let_def)
      from "1.IH"(2)[OF k refl Some refl False this] findMatchingBracket_Some(1)[OF Some]
      show ?thesis by auto
    next
      case True
      then have nn: "\<not> \<not> hasDecisionKeyword ?c" by simp
      show ?thesis
      proof (cases "unmarshal (fixArithmeticExpressions (fixMissingQuotes ?c))")
        case (Inl err)
        with k Some True "1.prems"
        have "scanArrays unmarshal response (arrayEnd + 1) = Some (arrayStart, decisions)"
          by (subst (asm) scanArrays.simps) (simp add: Let_def)
        from "1.IH"(3)[OF k refl Some refl nn Inl this] True findMatchingBracket_Some(1)[OF Some]
        show ?thesis by auto
      next
        case (Inr ds)
        show ?thesis
        proof (cases "length ds > 0 \<and> Symbol (ds ! 0) \<noteq> []")
          case good: True
          with k Some True Inr "1.prems" have "arrayStart = ?a" "decisions = ds"
            by (subst (asm) scanArrays.simps, simp add: Let_def)+
          with Some True Inr good show ?thesis by auto
        next
          case bad: False
          with k Some True Inr "1.prems"
          have "scanArrays unmarshal response (arrayEnd + 1) = Some (arrayStart, decisions)"
            by (subst (asm) scanArrays.simps) (auto simp add: Let_def)
          from "1.IH"(4)[OF k refl Some refl nn Inr bad this] True findMatchingBracket_Some(1)[OF Some]
          show ?thesis by auto
        qed
      qed
    qed
  qed
qed

lemma acceptedArray_bracket:
  assumes "acceptedArray unmarshal response = Some arrayStart"
  shows "arrayStart < length response \<and> response ! arrayStart = CHR ''[''"
proof (cases "scanArrays unmarshal response 0")
  case None
  with assms obtain a0 where l: "LastIndex response ''['' = Some a0"
    by (cases "LastIndex response ''[''") (simp_all add: acceptedArray_def)
  with None assms obtain e0 where f: "findMatchingBracket response a0 = Some e0"
    by (cases "findMatchingBracket response a0") (simp_all add: acceptedArray_def)
  from None l f assms have "a0 = arrayStart"
    by (simp add: acceptedArray_def split: sum.splits)
  with findMatchingBracket_Some[OF f] show ?thesis by simp
next
  case (Some p)
  obtain a ds where p: "p = (a, ds)" by (cases p)
  with Some assms have "a = arrayStart" by (simp add: acceptedArray_def)
  with Some p have "scanArrays unmarshal response 0 = Some (arrayStart, ds)" by simp
  from scanArrays_sound[OF this]
  obtain arrayEnd where "findMatchingBracket response arrayStart = Some arrayEnd" by blast
  from findMatchingBracket_Some[OF this] show ?thesis by simp
qed

lemma acceptedArray_decodes:
  assumes "acceptedArray unmarshal response = Some arrayStart"
  shows "\<exists>arrayEnd. findMatchingBracket response arrayStart = Some arrayEnd
           \<and> unmarshal (fixArithmeticExpressions (fixMissingQuotes
                 (TrimSpace (slice response arrayStart (arrayEnd + 1)))))
               = Inr (fst (extractDecisions unmarshal response))"
proof (cases "scanArrays unmarshal response 0")
  case None
  with assms obtain a0 where l: "LastIndex response ''['' = Some a0"
    by (cases "LastIndex response ''[''") (simp_all add: acceptedArray_def)
  with None assms obtain e0 where f: "findMatchingBracket response a0 = Some e0"
    by (cases "findMatchingBracket response a0") (simp_all add: acceptedArray_def)
  from None l f assms obtain ds where
    u: "unmarshal (fixArithmeticExpressions (fixMissingQuotes
          (TrimSpace (slice response a0 (e0 + 1))))) = Inr ds"
    by (cases "unmarshal (fixArithmeticExpressions (fixMissingQuotes
          (TrimSpace (slice response a0 (e0 + 1)))))") (simp_all add: acceptedArray_def)
  from None l f u assms have a: "a0 = arrayStart" by (simp add: acceptedArray_def)
  from None l f u have "fst (extractDecisions unmarshal response) = ds"
    by (simp add: extractDecisions_def)
  with f u a show ?thesis by auto
next
  case (Some p)
  obtain a ds where p: "p = (a, ds)" by (cases p)
  with Some assms have "a = arrayStart" by (simp add: acceptedArray_def)
  with Some p have s: "scanArrays unmarshal response 0 = Some (arrayStart, ds)" by simp
  then have "fst (extractDecisions unmarshal response) = ds"
    by (simp add: extractDecisions_def)
  with scanArrays_sound[OF s] show ?thesis by auto
qed

lemma acceptedArray_None:
  assumes "acceptedArray unmarshal response = None"
  shows "\<exists>reason. extractDecisions unmarshal response = ([waitDecision reason], None)"
proof (cases "scanArrays unmarshal response 0")
  case (Some p)
  with assms show ?thesis by (cases p) (simp add: acceptedArray_def)
next
  case None
  show ?thesis
  proof (cases "LastIndex response ''[''")
    case n: None
    with None show ?thesis by (auto simp: extractDecisions_def)
  next
    case (Some a0)
    show ?thesis
    proof (cases "findMatchingBracket response a0")
      case n: None
      with None Some show ?thesis by (auto simp: extractDecisions_def)
    next
      case e: (Some e0)
      with None Some assms show ?thesis
        by (cases "unmarshal (fixArithmeticExpressions (fixMissingQuotes
              (TrimSpace (slice response a0 (e0 + 1)))))")
           (auto simp: extractDecisions_def acceptedArray_def)
    qed
  qed
qed

lemma msg_nonempty: "msgNoArray \<noteq> []" "msgIncomplete \<noteq> []" "msgParseFailed err \<noteq> []"
  by (simp_all add: msgNoArray_def msgIncomplete_def msgParseFailed_def)

text \<open>
  C5, as stated, fails: for the response \<open>[]\<close> (which the prompt asks for when there is
  nothing to decide) \<open>extractDecisions\<close> returns the empty array, neither a non-empty array
  nor a synthetic \<open>wait\<close>.
\<close>

theorem extract_empty_array:
  "extractDecisions jsonUnmarshal ''[]'' = ([], None) \<and> jsonUnmarshal ''[]'' = Inr []"
  by code_simp

text \<open>
  C5, amended. For any response text and any decoder, \<open>extractDecisions\<close> returns no error,
  and what it returns is either a single synthetic \<open>wait\<close> decision with a non-empty
  diagnostic reason, or the array (possibly empty) decoded from a bracket-balanced block
  of the response.
\<close>

theorem extract_never_errors:
  "\<exists>decisions. extractDecisions unmarshal response = (decisions, None) \<and>
     ((\<exists>reason. reason \<noteq> [] \<and> decisions = [waitDecision reason]) \<or>
      (\<exists>arrayStart arrayEnd.
          findMatchingBracket response arrayStart = Some arrayEnd \<and>
          unmarshal (fixArithmeticExpressions (fixMissingQuotes
            (TrimSpace (slice response arrayStart (arrayEnd + 1))))) = Inr decisions))"
proof (cases "scanArrays unmarshal response 0")
  case (Some p)
  obtain a ds where p: "p = (a, ds)" by (cases p)
  with Some have s: "scanArrays unmarshal response 0 = Some (a, ds)" by simp
  then have "extractDecisions unmarshal response = (ds, None)"
    by (simp add: extractDecisions_def)
  moreover from scanArrays_sound[OF s]
  have "\<exists>arrayStart arrayEnd.
          findMatchingBracket response arrayStart = Some arrayEnd \<and>
          unmarshal (fixArithmeticExpressions (fixMissingQuotes
            (TrimSpace (slice response arrayStart (arrayEnd + 1))))) = Inr ds"
    by blast
  ultimately show ?thesis by blast
next
  case None
  show ?thesis
  proof (cases "LastIndex response ''[''")
    case n: None
    with None have "extractDecisions unmarshal response = ([waitDecision msgNoArray], None)"
      by (simp add: extractDecisions_def)
    with msg_nonempty(1) show ?thesis by blast
  next
    case (Some arrayStart)
    show ?thesis
    proof (cases "findMatchingBracket response arrayStart")
      case n: None
      with None Some
      have "extractDecisions unmarshal response = ([waitDecision msgIncomplete], None)"
        by (simp add: extractDecisions_def)
      with msg_nonempty(2) show ?thesis by blast
    next
      case e: (Some arrayEnd)
      show ?thesis
      proof (cases "unmarshal (fixArithmeticExpressions (fixMissingQuotes
              (TrimSpace (slice response arrayStart (arrayEnd + 1)))))")
        case (Inl err)
        with None Some e
        have "extractDecisions unmarshal response = ([waitDecision (msgParseFailed err)], None)"
          by (simp add: extractDecisions_def)
        with msg_nonempty(3) show ?thesis by blast
      next
        case (Inr ds)
        with None Some e have "extractDecisions unmarshal response = (ds, None)"
          by (simp add: extractDecisions_def)
        with e Inr show ?thesis by blast
      qed
    qed
  qed
qed

theorem extract_never_errors_witness:
  "\<exists>decisions. extractDecisions jsonUnmarshal ''hold everything'' = (decisions, None)
      \<and> decisions = [waitDecision msgNoArray]"
proof -
  have "extractDecisions jsonUnmarshal ''hold everything'' = ([waitDecision msgNoArray], None)"
    by code_simp
  with extract_never_errors[of jsonUnmarshal "''hold everything''"] show ?thesis by simp
qed



text \<open>
  C8, as stated, fails. With a price array before the accepted array, the trace stops at
  the first \<open>[\<close> of the response, not at the \<open>[\<close> of the accepted array; and the trace is
  trimmed, so it is not everything before the bracket.
\<close>

theorem cot_trace_counterexample:
  "acceptedArray jsonUnmarshal priceThenDecisions = Some 37
   \<and> take 37 priceThenDecisions = ''Prices [100000, 100100, 100200] then ''
   \<and> extractCoTTrace priceThenDecisions = ''Prices''
   \<and> acceptedArray jsonUnmarshal plainResponse = Some 10
   \<and> take 10 plainResponse = ''No setup. ''
   \<and> extractCoTTrace plainResponse = ''No setup.''"
  by code_simp

text \<open>
  C8, amended. For every response from which a decision array is accepted, if no \<open>[\<close>
  occurs before the accepted array and the array does not start the response, the trace
  is the text before the \<open>[\<close> of the accepted array with its leading and trailing white
  space removed. (The accepted array is the block at \<open>acceptedArray\<close>: what \<open>extractDecisions\<close>
  returns is its decoding.)
\<close>

theorem cot_trace_before_first_bracket:
  assumes "acceptedArray unmarshal response = Some arrayStart"
    and "CHR ''['' \<notin> set (take arrayStart response)"
    and "arrayStart > 0"
  shows "extractCoTTrace response = TrimSpace (take arrayStart response)
         \<and> (\<exists>arrayEnd. findMatchingBracket response arrayStart = Some arrayEnd
               \<and> unmarshal (fixArithmeticExpressions (fixMissingQuotes
                     (TrimSpace (slice response arrayStart (arrayEnd + 1)))))
                   = Inr (fst (extractDecisions unmarshal response)))"
proof -
  from acceptedArray_bracket[OF assms(1)] assms(2)
  have "Index response ''['' = Some arrayStart"
    by (simp add: Index_bracket_Some)
  with assms(3) have "extractCoTTrace response = TrimSpace (take arrayStart response)"
    by (simp add: extractCoTTrace_def slice_def)
  with acceptedArray_decodes[OF assms(1)] show ?thesis by simp
qed

theorem cot_trace_before_first_bracket_witness:
  "extractCoTTrace plainResponse = ''No setup.'' \<and> acceptedArray jsonUnmarshal plainResponse = Some 10"
proof -
  have a: "acceptedArray jsonUnmarshal plainResponse = Some 10"
    by code_simp
  have b: "CHR ''['' \<notin> set (take 10 plainResponse)"
    by code_simp
  have c: "TrimSpace (take 10 plainResponse) = ''No setup.''"
    by code_simp
  from cot_trace_before_first_bracket[OF a b] c a show ?thesis by simp
qed

subsection \<open>Validation of a batch\<close>

lemma validateFrom_first_failure:
  assumes "i < length ds"
    and "validateDecision (ds ! i) eq btc alt mn mx = Some e"
    and "\<forall>j<i. validateDecision (ds ! j) eq btc alt mn mx = None"
  shows "validateFrom n ds eq btc alt mn mx = Some (DecisionInvalid (n + i + 1) e)"
  using assms
proof (induction ds arbitrary: i n)
  case Nil
  then show ?case by simp
next
  case (Cons d ds)
  show ?case
  proof (cases i)
    case 0
    with Cons.prems show ?thesis by simp
  next
    case (Suc i')
    from Cons.prems Suc have h: "validateDecision d eq btc alt mn mx = None" by auto
    from Cons.prems Suc have "i' < length ds"
      "validateDecision (ds ! i') eq btc alt mn mx = Some e"
      "\<forall>j<i'. validateDecision (ds ! j) eq btc alt mn mx = None"
      by auto
    from Cons.IH[OF this, of "n + 1"] h Suc show ?thesis by simp
  qed
qed

lemma validateFrom_None:
  "validateFrom n ds eq btc alt mn mx = None \<longleftrightarrow>
     (\<forall>d \<in> set ds. validateDecision d eq btc alt mn mx = None)"
  by (induction ds arbitrary: n) (auto split: option.splits)

text \<open>
  C3, as stated, fails: a response with a first decision above the leverage cap and a
  valid second decision makes \<open>GetFullDecision\<close> return an error and no decision; in what
  \<open>parseFullDecisionResponse\<close> returns with the error, the failed decision is still an
  \<open>open_long\<close>, not a \<open>wait\<close>.
\<close>

theorem single_failure_counterexample:
  "GetFullDecision jsonUnmarshal ''prompt'' (Inr badThenGood) 1000 10 5 0 0 =
     Inl (ParseResponseFailed (ValidationFailed
            (DecisionInvalid 1 (LeverageOutOfRange 5 ''SOLUSDT'' 25)) ''Plan:''))
   \<and> map Action (Decisions (fst (parseFullDecisionResponse jsonUnmarshal badThenGood 1000 10 5 0 0)))
       = [''open_long'', ''wait'']"
  by code_simp

text \<open>
  C3, amended. When the validation of a decision of the parsed and normalised batch
  fails, and it is the first that fails, \<open>parseFullDecisionResponse\<close> returns the error of
  that decision with its number (from 1), together with the trace and the normalised
  decisions as they are, and \<open>GetFullDecision\<close> returns that error and no decision.
\<close>

theorem validation_failure_fails_batch:
  assumes "extractDecisions unmarshal aiResponse = (decisions, None)"
    and "i < length decisions"
    and "validateDecision (normalizeDecisions decisions mn mx ! i) eq btc alt mn mx = Some e"
    and "\<forall>j<i. validateDecision (normalizeDecisions decisions mn mx ! j) eq btc alt mn mx = None"
  shows "parseFullDecisionResponse unmarshal aiResponse eq btc alt mn mx =
           (\<lparr>UserPrompt = [], CoTTrace = extractCoTTrace aiResponse,
             Decisions = normalizeDecisions decisions mn mx\<rparr>,
            Some (ValidationFailed (DecisionInvalid (i + 1) e) (extractCoTTrace aiResponse)))
         \<and> GetFullDecision unmarshal userPrompt (Inr aiResponse) eq btc alt mn mx =
             Inl (ParseResponseFailed
                    (ValidationFailed (DecisionInvalid (i + 1) e) (extractCoTTrace aiResponse)))"
proof -
  have len: "i < length (normalizeDecisions decisions mn mx)"
    using assms(2) by (simp add: normalizeDecisions_def)
  from validateFrom_first_failure[OF len assms(3) assms(4), of 0]
  have v: "validateDecisions (normalizeDecisions decisions mn mx) eq btc alt mn mx
             = Some (DecisionInvalid (i + 1) e)"
    by (simp add: validateDecisions_def)
  have p: "parseFullDecisionResponse unmarshal aiResponse eq btc alt mn mx =
           (\<lparr>UserPrompt = [], CoTTrace = extractCoTTrace aiResponse,
             Decisions = normalizeDecisions decisions mn mx\<rparr>,
            Some (ValidationFailed (DecisionInvalid (i + 1) e) (extractCoTTrace aiResponse)))"
    using assms(1) v by (simp add: parseFullDecisionResponse_def Let_def)
  then show ?thesis by (simp add: GetFullDecision_def)
qed

theorem validation_failure_fails_batch_witness:
  "GetFullDecision jsonUnmarshal ''prompt'' (Inr badThenGood) 1000 10 5 0 0 =
     Inl (ParseResponseFailed (ValidationFailed
            (DecisionInvalid (0 + 1) (LeverageOutOfRange 5 ''SOLUSDT'' 25))
            (extractCoTTrace badThenGood)))"
proof -
  let ?ds = "[\<lparr>Symbol = ''SOLUSDT'', Action = ''open_long'', Leverage = 25, PositionSizeUSD = 100,
               StopLoss = 100, TakeProfit = 200, Confidence = 0, RiskUSD = 0, Reasoning = ''a''\<rparr>,
              \<lparr>Symbol = ''BTCUSDT'', Action = ''wait'', Leverage = 0, PositionSizeUSD = 0,
               StopLoss = 0, TakeProfit = 0, Confidence = 0, RiskUSD = 0, Reasoning = ''b''\<rparr>]"
  have e: "extractDecisions jsonUnmarshal badThenGood = (?ds, None)"
    by code_simp
  have l: "0 < length ?ds" by simp
  have v: "validateDecision (normalizeDecisions ?ds 0 0 ! 0) 1000 10 5 0 0
             = Some (LeverageOutOfRange 5 ''SOLUSDT'' 25)"
    by (simp add: normalizeDecisions_def normalizeDecision_def validate_defs)
  have n: "\<forall>j<0. validateDecision (normalizeDecisions ?ds 0 0 ! j) 1000 10 5 0 0 = None"
    by simp
  from validation_failure_fails_batch[OF e l v n, of "''prompt''"] show ?thesis by simp
qed

section \<open>Properties of the snapshot assembly\<close>








section \<open>Properties of the LLM client\<close>

lemma retryLoop_over:
  "attempt > maxRetries \<Longrightarrow>
     retryLoop callOnce maxRetries attempt lastErr = (Inl (RetriesFailed maxRetries lastErr), [])"
  by (subst retryLoop.simps) simp

lemma retryLoop_ok:
  "attempt \<le> maxRetries \<Longrightarrow> callOnce attempt = Inr result \<Longrightarrow>
     retryLoop callOnce maxRetries attempt lastErr = (Inr result, [CallOnce attempt])"
  by (subst retryLoop.simps) simp

lemma retryLoop_fatal:
  "attempt \<le> maxRetries \<Longrightarrow> callOnce attempt = Inl err \<Longrightarrow> \<not> isRetryableError err \<Longrightarrow>
     retryLoop callOnce maxRetries attempt lastErr = (Inl (CallOnceError err), [CallOnce attempt])"
  by (subst retryLoop.simps) simp

lemma retryLoop_retry:
  "attempt \<le> maxRetries \<Longrightarrow> callOnce attempt = Inl err \<Longrightarrow> isRetryableError err \<Longrightarrow>
     retryLoop callOnce maxRetries attempt lastErr =
       (fst (retryLoop callOnce maxRetries (attempt + 1) (Some err)),
        CallOnce attempt # (if attempt < maxRetries then [Sleep (attempt * 2)] else [])
          @ snd (retryLoop callOnce maxRetries (attempt + 1) (Some err)))"
  by (subst retryLoop.simps) (simp add: case_prod_beta)

lemma retryLoop_calls:
  "length (filter (\<lambda>ev. \<exists>k. ev = CallOnce k) (snd (retryLoop callOnce maxRetries attempt lastErr)))
     \<le> Suc maxRetries - attempt"
proof (induction callOnce maxRetries attempt lastErr rule: retryLoop.induct)
  case (1 callOnce maxRetries attempt lastErr)
  show ?case
  proof (cases "attempt \<le> maxRetries")
    case False
    then show ?thesis by (simp add: retryLoop_over)
  next
    case True
    show ?thesis
    proof (cases "callOnce attempt")
      case (Inr result)
      with True show ?thesis by (simp add: retryLoop_ok)
    next
      case (Inl err)
      show ?thesis
      proof (cases "isRetryableError err")
        case False
        with True Inl show ?thesis by (simp add: retryLoop_fatal)
      next
        case r: True
        then have nn: "\<not> \<not> isRetryableError err" by simp
        from "1.IH"[OF True Inl nn] True Inl r show ?thesis
          by (simp add: retryLoop_retry)
      qed
    qed
  qed
qed

text \<open>
  C9. \<open>CallWithMessages\<close> calls \<open>callOnce\<close> at most 3 times (not at all without an API
  key, which is an error of its own); an error is
  retried exactly when its text contains one of \<open>EOF\<close>, \<open>timeout\<close>, \<open>connection reset\<close>,
  \<open>connection refused\<close>, \<open>temporary failure\<close>, \<open>no such host\<close>; any other error is returned
  at once, as it is; the sleep is 2 seconds after the first failed attempt and 4 seconds
  after the second, none after the third; and after three retryable failures the result
  is the error that wraps the last failure.
\<close>

theorem llm_retry_policy:
  "length (filter (\<lambda>ev. \<exists>k. ev = CallOnce k) (snd (CallWithMessages apiKey callOnce))) \<le> 3
   \<and> (isRetryableError err \<longleftrightarrow>
        (\<exists>pattern \<in> {''EOF'', ''timeout'', ''connection reset'', ''connection refused'',
                       ''temporary failure'', ''no such host''}. Contains err pattern))
   \<and> (apiKey = [] \<longrightarrow> CallWithMessages apiKey callOnce = (Inl ApiKeyNotSet, []))
   \<and> (apiKey \<noteq> [] \<longrightarrow>
        (callOnce 1 = Inr r1 \<longrightarrow>
          CallWithMessages apiKey callOnce = (Inr r1, [CallOnce 1]))
      \<and> (callOnce 1 = Inl e1 \<and> \<not> isRetryableError e1 \<longrightarrow>
          CallWithMessages apiKey callOnce = (Inl (CallOnceError e1), [CallOnce 1]))
      \<and> (callOnce 1 = Inl e1 \<and> isRetryableError e1 \<and> callOnce 2 = Inr r2 \<longrightarrow>
          CallWithMessages apiKey callOnce = (Inr r2, [CallOnce 1, Sleep 2, CallOnce 2]))
      \<and> (callOnce 1 = Inl e1 \<and> isRetryableError e1
          \<and> callOnce 2 = Inl e2 \<and> \<not> isRetryableError e2 \<longrightarrow>
          CallWithMessages apiKey callOnce
            = (Inl (CallOnceError e2), [CallOnce 1, Sleep 2, CallOnce 2]))
      \<and> (callOnce 1 = Inl e1 \<and> isRetryableError e1
          \<and> callOnce 2 = Inl e2 \<and> isRetryableError e2 \<and> callOnce 3 = Inr r3 \<longrightarrow>
          CallWithMessages apiKey callOnce
            = (Inr r3, [CallOnce 1, Sleep 2, CallOnce 2, Sleep 4, CallOnce 3]))
      \<and> (callOnce 1 = Inl e1 \<and> isRetryableError e1
          \<and> callOnce 2 = Inl e2 \<and> isRetryableError e2
          \<and> callOnce 3 = Inl e3 \<and> \<not> isRetryableError e3 \<longrightarrow>
          CallWithMessages apiKey callOnce
            = (Inl (CallOnceError e3), [CallOnce 1, Sleep 2, CallOnce 2, Sleep 4, CallOnce 3]))
      \<and> (callOnce 1 = Inl e1 \<and> isRetryableError e1
          \<and> callOnce 2 = Inl e2 \<and> isRetryableError e2
          \<and> callOnce 3 = Inl e3 \<and> isRetryableError e3 \<longrightarrow>
          CallWithMessages apiKey callOnce
            = (Inl (RetriesFailed 3 (Some e3)),
               [CallOnce 1, Sleep 2, CallOnce 2, Sleep 4, CallOnce 3])))"
proof -
  have count: "length (filter (\<lambda>ev. \<exists>k. ev = CallOnce k) (snd (CallWithMessages apiKey callOnce))) \<le> 3"
    using retryLoop_calls[of callOnce 3 1 None] by (simp add: CallWithMessages_def)
  have pat: "isRetryableError err \<longleftrightarrow>
          (\<exists>pattern \<in> {''EOF'', ''timeout'', ''connection reset'', ''connection refused'',
                         ''temporary failure'', ''no such host''}. Contains err pattern)"
    by (simp add: isRetryableError_def retryableErrors_def)
  have nokey: "apiKey = [] \<longrightarrow> CallWithMessages apiKey callOnce = (Inl ApiKeyNotSet, [])"
    by (simp add: CallWithMessages_def)
  have cases: "(callOnce 1 = Inr r1 \<longrightarrow>
          CallWithMessages apiKey callOnce = (Inr r1, [CallOnce 1]))
      \<and> (callOnce 1 = Inl e1 \<and> \<not> isRetryableError e1 \<longrightarrow>
          CallWithMessages apiKey callOnce = (Inl (CallOnceError e1), [CallOnce 1]))
      \<and> (callOnce 1 = Inl e1 \<and> isRetryableError e1 \<and> callOnce 2 = Inr r2 \<longrightarrow>
          CallWithMessages apiKey callOnce = (Inr r2, [CallOnce 1, Sleep 2, CallOnce 2]))
      \<and> (callOnce 1 = Inl e1 \<and> isRetryableError e1
          \<and> callOnce 2 = Inl e2 \<and> \<not> isRetryableError e2 \<longrightarrow>
          CallWithMessages apiKey callOnce
            = (Inl (CallOnceError e2), [CallOnce 1, Sleep 2, CallOnce 2]))
      \<and> (callOnce 1 = Inl e1 \<and> isRetryableError e1
          \<and> callOnce 2 = Inl e2 \<and> isRetryableError e2 \<and> callOnce 3 = Inr r3 \<longrightarrow>
          CallWithMessages apiKey callOnce
            = (Inr r3, [CallOnce 1, Sleep 2, CallOnce 2, Sleep 4, CallOnce 3]))
      \<and> (callOnce 1 = Inl e1 \<and> isRetryableError e1
          \<and> callOnce 2 = Inl e2 \<and> isRetryableError e2
          \<and> callOnce 3 = Inl e3 \<and> \<not> isRetryableError e3 \<longrightarrow>
          CallWithMessages apiKey callOnce
            = (Inl (CallOnceError e3), [CallOnce 1, Sleep 2, CallOnce 2, Sleep 4, CallOnce 3]))
      \<and> (callOnce 1 = Inl e1 \<and> isRetryableError e1
          \<and> callOnce 2 = Inl e2 \<and> isRetryableError e2
          \<and> callOnce 3 = Inl e3 \<and> isRetryableError e3 \<longrightarrow>
          CallWithMessages apiKey callOnce
            = (Inl (RetriesFailed 3 (Some e3)),
               [CallOnce 1, Sleep 2, CallOnce 2, Sleep 4, CallOnce 3]))"
    if key: "apiKey \<noteq> []"
  proof -
    have cw: "CallWithMessages apiKey callOnce = retryLoop callOnce 3 1 None"
      using key by (simp add: CallWithMessages_def)
    have c1: "callOnce 1 = Inr r1 \<longrightarrow> CallWithMessages apiKey callOnce = (Inr r1, [CallOnce 1])"
      unfolding cw by (simp add: retryLoop_ok)
    have c2: "callOnce 1 = Inl e1 \<and> \<not> isRetryableError e1 \<longrightarrow>
          CallWithMessages apiKey callOnce = (Inl (CallOnceError e1), [CallOnce 1])"
      unfolding cw by (simp add: retryLoop_fatal)
    have c3: "callOnce 1 = Inl e1 \<and> isRetryableError e1 \<and> callOnce 2 = Inr r2 \<longrightarrow>
          CallWithMessages apiKey callOnce = (Inr r2, [CallOnce 1, Sleep 2, CallOnce 2])"
      unfolding cw by (simp add: retryLoop_retry retryLoop_ok eval_nat_numeral)
    have c4: "callOnce 1 = Inl e1 \<and> isRetryableError e1
          \<and> callOnce 2 = Inl e2 \<and> \<not> isRetryableError e2 \<longrightarrow>
          CallWithMessages apiKey callOnce
            = (Inl (CallOnceError e2), [CallOnce 1, Sleep 2, CallOnce 2])"
      unfolding cw by (simp add: retryLoop_retry retryLoop_fatal eval_nat_numeral)
    have c5: "callOnce 1 = Inl e1 \<and> isRetryableError e1
          \<and> callOnce 2 = Inl e2 \<and> isRetryableError e2 \<and> callOnce 3 = Inr r3 \<longrightarrow>
          CallWithMessages apiKey callOnce
            = (Inr r3, [CallOnce 1, Sleep 2, CallOnce 2, Sleep 4, CallOnce 3])"
      unfolding cw by (simp add: retryLoop_retry retryLoop_ok eval_nat_numeral)
    have c6: "callOnce 1 = Inl e1 \<and> isRetryableError e1
          \<and> callOnce 2 = Inl e2 \<and> isRetryableError e2
          \<and> callOnce 3 = Inl e3 \<and> \<not> isRetryableError e3 \<longrightarrow>
          CallWithMessages apiKey callOnce
            = (Inl (CallOnceError e3), [CallOnce 1, Sleep 2, CallOnce 2, Sleep 4, CallOnce 3])"
      unfolding cw by (simp add: retryLoop_retry retryLoop_fatal eval_nat_numeral)
    have c7: "callOnce 1 = Inl e1 \<and> isRetryableError e1
          \<and> callOnce 2 = Inl e2 \<and> isRetryableError e2
          \<and> callOnce 3 = Inl e3 \<and> isRetryableError e3 \<longrightarrow>
          CallWithMessages apiKey callOnce
            = (Inl (RetriesFailed 3 (Some e3)),
               [CallOnce 1, Sleep 2, CallOnce 2, Sleep 4, CallOnce 3])"
      unfolding cw by (simp add: retryLoop_retry retryLoop_over eval_nat_numeral)
    from c1 c2 c3 c4 c5 c6 c7 show ?thesis by (intro conjI)
  qed
  from count pat nokey cases show ?thesis by (intro conjI impI) blast+
qed

theorem llm_retry_policy_witness:
  "CallWithMessages ''key'' flaky
     = (Inl (RetriesFailed 3 (Some ''context deadline exceeded (Client.Timeout exceeded): timeout'')),
        [CallOnce 1, Sleep 2, CallOnce 2, Sleep 4, CallOnce 3])
   \<and> CallWithMessages [] flaky = (Inl ApiKeyNotSet, [])"
proof -
  have r: "isRetryableError ''read tcp: connection reset by peer''"
      "isRetryableError ''unexpected EOF''"
      "isRetryableError ''context deadline exceeded (Client.Timeout exceeded): timeout''"
    by code_simp+
  from llm_retry_policy
      [where apiKey = "''key''" and callOnce = flaky
         and ?e1.0 = "''read tcp: connection reset by peer''"
         and ?e2.0 = "''unexpected EOF''"
         and ?e3.0 = "''context deadline exceeded (Client.Timeout exceeded): timeout''"] r
  have a: "CallWithMessages ''key'' flaky
     = (Inl (RetriesFailed 3 (Some ''context deadline exceeded (Client.Timeout exceeded): timeout'')),
        [CallOnce 1, Sleep 2, CallOnce 2, Sleep 4, CallOnce 3])"
    by (simp add: flaky_def)
  from llm_retry_policy[where apiKey = "[]" and callOnce = flaky]
  have b: "CallWithMessages [] flaky = (Inl ApiKeyNotSet, [])"
    by simp
  from a b show ?thesis by simp
qed

section \<open>Properties of the outside-day detector\<close>



end
